theory Spec2Isabelle
  imports Complex_Main "HOL-Library.Log_Nat"
begin

section \<open>JavaScript values used by the dashboard script\<close>

subsection \<open>Numbers\<close>

text \<open>
  A JavaScript number is a finite value, one of the two infinities, or NaN. The
  operations of this section keep finite values as exact rationals; the rounding of
  doubles is added in the section on double arithmetic below, for the statement that is
  about it. The sign of zero is not modelled: every divisor in \<open>script.js\<close> is a
  length, a sum of counts or a positive constant, so a negative zero never reaches a
  division.
\<close>

datatype jsnum = Fin rat | PosInf | NegInf | NaN

definition num :: "nat \<Rightarrow> jsnum" where
  "num n = Fin (of_nat n)"

fun js_neg :: "jsnum \<Rightarrow> jsnum" where
  "js_neg (Fin a) = Fin (- a)"
| "js_neg PosInf = NegInf"
| "js_neg NegInf = PosInf"
| "js_neg NaN = NaN"

fun js_add :: "jsnum \<Rightarrow> jsnum \<Rightarrow> jsnum" where
  "js_add (Fin a) (Fin b) = Fin (a + b)"
| "js_add NaN _ = NaN"
| "js_add _ NaN = NaN"
| "js_add PosInf NegInf = NaN"
| "js_add NegInf PosInf = NaN"
| "js_add PosInf _ = PosInf"
| "js_add _ PosInf = PosInf"
| "js_add NegInf _ = NegInf"
| "js_add _ NegInf = NegInf"

definition js_sub :: "jsnum \<Rightarrow> jsnum \<Rightarrow> jsnum" where
  "js_sub a b = js_add a (js_neg b)"

fun js_mul :: "jsnum \<Rightarrow> jsnum \<Rightarrow> jsnum" where
  "js_mul (Fin a) (Fin b) = Fin (a * b)"
| "js_mul NaN _ = NaN"
| "js_mul _ NaN = NaN"
| "js_mul PosInf (Fin b) = (if b = 0 then NaN else if 0 < b then PosInf else NegInf)"
| "js_mul NegInf (Fin b) = (if b = 0 then NaN else if 0 < b then NegInf else PosInf)"
| "js_mul (Fin a) PosInf = (if a = 0 then NaN else if 0 < a then PosInf else NegInf)"
| "js_mul (Fin a) NegInf = (if a = 0 then NaN else if 0 < a then NegInf else PosInf)"
| "js_mul PosInf PosInf = PosInf"
| "js_mul NegInf NegInf = PosInf"
| "js_mul PosInf NegInf = NegInf"
| "js_mul NegInf PosInf = NegInf"

text \<open>Division never throws: \<open>0 / 0\<close> is NaN and \<open>x / 0\<close> is an infinity.\<close>

fun js_div :: "jsnum \<Rightarrow> jsnum \<Rightarrow> jsnum" where
  "js_div (Fin a) (Fin b) =
     (if b = 0 then (if a = 0 then NaN else if 0 < a then PosInf else NegInf)
      else Fin (a / b))"
| "js_div NaN _ = NaN"
| "js_div _ NaN = NaN"
| "js_div (Fin a) PosInf = Fin 0"
| "js_div (Fin a) NegInf = Fin 0"
| "js_div PosInf (Fin b) = (if 0 \<le> b then PosInf else NegInf)"
| "js_div NegInf (Fin b) = (if 0 \<le> b then NegInf else PosInf)"
| "js_div PosInf PosInf = NaN"
| "js_div PosInf NegInf = NaN"
| "js_div NegInf PosInf = NaN"
| "js_div NegInf NegInf = NaN"

text \<open>The relational operators: every comparison with NaN is false.\<close>

fun js_lt :: "jsnum \<Rightarrow> jsnum \<Rightarrow> bool" where
  "js_lt (Fin a) (Fin b) = (a < b)"
| "js_lt NaN _ = False"
| "js_lt _ NaN = False"
| "js_lt NegInf NegInf = False"
| "js_lt NegInf _ = True"
| "js_lt _ NegInf = False"
| "js_lt PosInf _ = False"
| "js_lt _ PosInf = True"

definition js_gt :: "jsnum \<Rightarrow> jsnum \<Rightarrow> bool" where
  "js_gt a b = js_lt b a"

subsection \<open>Decimal rendering of numbers in template strings\<close>

definition digit_char :: "nat \<Rightarrow> char" where
  "digit_char d = char_of (48 + d)"

text \<open>\<open>`${n}`\<close> for a non-negative integer \<open>n\<close>: its decimal digits.\<close>

function show_nat :: "nat \<Rightarrow> string" where
  "show_nat n = (if n < 10 then [digit_char n] else show_nat (n div 10) @ [digit_char (n mod 10)])"
  by pat_completeness auto
termination
  by (relation "measure id") auto

declare show_nat.simps [simp del]

text \<open>
  \<open>x.toFixed(1)\<close>: the integer \<open>n\<close> with \<open>n / 10\<close> closest to \<open>x\<close>, the larger
  one on a tie, printed with one decimal; the sign is taken off first.
\<close>

definition fixed1 :: "rat \<Rightarrow> string" where
  "fixed1 x = (let n = nat \<lfloor>x * 10 + 1 / 2\<rfloor>
               in show_nat (n div 10) @ ''.'' @ show_nat (n mod 10))"

fun toFixed1 :: "jsnum \<Rightarrow> string" where
  "toFixed1 NaN = ''NaN''"
| "toFixed1 PosInf = ''Infinity''"
| "toFixed1 NegInf = ''-Infinity''"
| "toFixed1 (Fin x) = (if x < 0 then ''-'' @ fixed1 (- x) else fixed1 x)"

subsection \<open>Field values and records of the loaded JSON\<close>

text \<open>
  A field of an application record is a JSON string or \<open>null\<close>; reading a key the
  object does not have gives \<open>undefined\<close>.
\<close>

datatype jsval = Undefined | Null | Str string

text \<open>Truthiness, as \<open>filter(d => d[f])\<close> and \<open>if (app[f])\<close> test it.\<close>

fun truthy :: "jsval \<Rightarrow> bool" where
  "truthy Undefined = False"
| "truthy Null = False"
| "truthy (Str s) = (s \<noteq> [])"

type_synonym application_record = "(string \<times> jsval) list"

text \<open>\<open>d[k]\<close> on a record.\<close>

definition get_field :: "application_record \<Rightarrow> string \<Rightarrow> jsval" where
  "get_field d k = (case map_of d k of None \<Rightarrow> Undefined | Some v \<Rightarrow> v)"

text \<open>
  The three pre-aggregated collections. Their counts are non-negative integers, so sums
  and lengths are kept as \<open>nat\<close> and become a \<open>jsnum\<close> where the script divides,
  multiplies or compares them.
\<close>

record status_aggregate =
  Application_State :: string
  Applicants :: nat

record weekly_point =
  Week_of_APPLICATION_DATE :: string
  CountDistinct_of_APPLICANT_ID :: nat

record job_aggregate =
  Job_Name :: string
  Job_Owner :: string
  Total_Applicants :: nat
  Days_Open :: rat

text \<open>The global \<open>dashboardData\<close>, passed explicitly to every function that reads it.\<close>

record dashboard_data =
  applicationDetails :: "application_record list"
  applicantsByStatus :: "status_aggregate list"
  applicationsOverTime :: "weekly_point list"
  byTeamJob :: "job_aggregate list"

section \<open>Key metrics\<close>

record conversion_funnel =
  applications :: nat
  viewed :: nat
  viewedRate :: jsnum
  interviewed :: nat
  interviewRate :: jsnum
  offered :: nat
  offerRate :: jsnum
  hired :: nat
  hireRate :: jsnum

definition calculateConversionFunnel :: "dashboard_data \<Rightarrow> conversion_funnel" where
  "calculateConversionFunnel dashboardData =
     (let total = length (applicationDetails dashboardData);
          viewed = length (filter (\<lambda>d. truthy (get_field d ''Viewed By''))
                     (applicationDetails dashboardData));
          interviewed = length (filter (\<lambda>d. truthy (get_field d ''Interview Date''))
                          (applicationDetails dashboardData));
          offered = length (filter (\<lambda>d. truthy (get_field d ''Offer Date''))
                      (applicationDetails dashboardData));
          hired = length (filter (\<lambda>d. truthy (get_field d ''Hire Date''))
                    (applicationDetails dashboardData))
      in \<lparr> applications = total,
           viewed = viewed,
           viewedRate = js_div (num viewed) (num total),
           interviewed = interviewed,
           interviewRate = js_div (num interviewed) (num total),
           offered = offered,
           offerRate = js_div (num offered) (num total),
           hired = hired,
           hireRate = js_div (num hired) (num total) \<rparr>)"

text \<open>
  \<open>new Date(v)\<close> followed by the numeric coercion of the subtraction: the time value
  in milliseconds. Parsing a date string is the host's \<open>Date.parse\<close>, taken as the
  parameter \<open>parse\<close> (NaN for an invalid date); \<open>new Date(null)\<close> is the epoch and
  \<open>new Date(undefined)\<close> is invalid.
\<close>

fun new_Date :: "(string \<Rightarrow> jsnum) \<Rightarrow> jsval \<Rightarrow> jsnum" where
  "new_Date parse (Str s) = parse s"
| "new_Date parse Null = Fin 0"
| "new_Date parse Undefined = NaN"

definition validRecords ::
  "application_record list \<Rightarrow> string \<Rightarrow> string \<Rightarrow> application_record list" where
  "validRecords data startField endField =
     filter (\<lambda>d. truthy (get_field d startField) \<and> truthy (get_field d endField)) data"

definition days ::
  "(string \<Rightarrow> jsnum) \<Rightarrow> application_record \<Rightarrow> string \<Rightarrow> string \<Rightarrow> jsnum" where
  "days parse record startField endField =
     (let start = new_Date parse (get_field record startField);
          end = new_Date parse (get_field record endField)
      in js_div (js_sub end start) (num (1000 * 60 * 60 * 24)))"

definition calculateAverageDays ::
  "(string \<Rightarrow> jsnum) \<Rightarrow> application_record list \<Rightarrow> string \<Rightarrow> string \<Rightarrow> jsnum" where
  "calculateAverageDays parse data startField endField =
     (let valid = validRecords data startField endField
      in if length valid = 0 then num 0
         else let totalDays =
                    foldl (\<lambda>sum record. js_add sum (days parse record startField endField))
                      (num 0) valid
              in js_div totalDays (num (length valid)))"

record time_metrics =
  appToView :: jsnum
  viewToInterview :: jsnum
  interviewToOffer :: jsnum
  appToOffer :: jsnum

definition calculateTimeMetrics :: "(string \<Rightarrow> jsnum) \<Rightarrow> dashboard_data \<Rightarrow> time_metrics" where
  "calculateTimeMetrics parse dashboardData =
     (let details = applicationDetails dashboardData
      in \<lparr> appToView = calculateAverageDays parse details ''Application Date'' ''Viewed Date'',
           viewToInterview = calculateAverageDays parse details ''Viewed Date'' ''Interview Date'',
           interviewToOffer = calculateAverageDays parse details ''Interview Date'' ''Offer Date'',
           appToOffer = calculateAverageDays parse details ''Application Date'' ''Offer Date'' \<rparr>)"

subsection \<open>An instance of the date parser: the date-only ISO form\<close>

text \<open>
  ECMAScript reads \<open>YYYY-MM-DD\<close> as midnight UTC of that day. This instance of
  \<open>parse\<close> accepts exactly that form with a date of the calendar, and is used for the
  concrete inputs below.
\<close>

definition days_from_civil :: "int \<Rightarrow> int \<Rightarrow> int \<Rightarrow> int" where
  "days_from_civil y m d =
     (let y' = (if m \<le> 2 then y - 1 else y);
          era = y' div 400;
          yoe = y' - era * 400;
          doy = (153 * (if 2 < m then m - 3 else m + 9) + 2) div 5 + d - 1;
          doe = yoe * 365 + yoe div 4 - yoe div 100 + doy
      in era * 146097 + doe - 719468)"

definition is_digit :: "char \<Rightarrow> bool" where
  "is_digit c = (48 \<le> (of_char c :: nat) \<and> (of_char c :: nat) \<le> 57)"

definition read_nat :: "string \<Rightarrow> nat" where
  "read_nat s = foldl (\<lambda>n c. 10 * n + (of_char c - 48)) 0 s"

definition days_in_month :: "int \<Rightarrow> int \<Rightarrow> int" where
  "days_in_month y m =
     (if m = 2 then (if y mod 4 = 0 \<and> (y mod 100 \<noteq> 0 \<or> y mod 400 = 0) then 29 else 28)
      else if m = 4 \<or> m = 6 \<or> m = 9 \<or> m = 11 then 30 else 31)"

definition iso_date_ms :: "string \<Rightarrow> jsnum" where
  "iso_date_ms s =
     (if length s = 10 \<and> s ! 4 = CHR ''-'' \<and> s ! 7 = CHR ''-''
         \<and> list_all is_digit (take 4 s) \<and> list_all is_digit (take 2 (drop 5 s))
         \<and> list_all is_digit (drop 8 s)
      then let y = int (read_nat (take 4 s));
               m = int (read_nat (take 2 (drop 5 s)));
               d = int (read_nat (drop 8 s))
           in if 1 \<le> m \<and> m \<le> 12 \<and> 1 \<le> d \<and> d \<le> days_in_month y m
              then Fin (of_int (days_from_civil y m d * 86400000))
              else NaN
      else NaN)"

section \<open>Pipeline breakdown\<close>

record stage_breakdown =
  count :: nat
  percentage :: jsnum

record pipeline_breakdown =
  earlyStage :: stage_breakdown
  activeEngagement :: stage_breakdown
  advancedStage :: stage_breakdown
  closed :: stage_breakdown

text \<open>The four status lists of the \<open>statusCategories\<close> table.\<close>

definition earlyStage_statuses :: "string list" where
  "earlyStage_statuses =
     [''New'', ''Initial Contact Attempted'', ''2nd Contact Attempted'', ''3rd Contact Attempted'']"

definition activeEngagement_statuses :: "string list" where
  "activeEngagement_statuses =
     [''In Communication'', ''Interview Scheduled'', ''Interview Cancelled'']"

definition advancedStage_statuses :: "string list" where
  "advancedStage_statuses = [''Sent Documents'', ''Documents Signed'']"

definition closed_statuses :: "string list" where
  "closed_statuses = [''Not Qualified'', ''No Offer Made'', ''Sent Application'']"

text \<open>The body of the loop over the table's entries, for one entry's status list.\<close>

definition breakdown_entry :: "status_aggregate list \<Rightarrow> nat \<Rightarrow> string list \<Rightarrow> stage_breakdown" where
  "breakdown_entry statusData total' statuses =
     (let count = foldl (\<lambda>sum s. sum + Applicants s) 0
                    (filter (\<lambda>s. Application_State s \<in> set statuses) statusData)
      in \<lparr> count = count,
           percentage = js_mul (js_div (num count) (num total')) (num 100) \<rparr>)"

definition calculatePipelineBreakdown :: "dashboard_data \<Rightarrow> pipeline_breakdown" where
  "calculatePipelineBreakdown dashboardData =
     (let statusData = applicantsByStatus dashboardData;
          total = foldl (\<lambda>sum s. sum + Applicants s) 0 statusData
      in \<lparr> earlyStage = breakdown_entry statusData total earlyStage_statuses,
           activeEngagement = breakdown_entry statusData total activeEngagement_statuses,
           advancedStage = breakdown_entry statusData total advancedStage_statuses,
           closed = breakdown_entry statusData total closed_statuses \<rparr>)"

section \<open>Critical alerts\<close>

record alert =
  severity :: string
  icon :: string
  title :: string
  message :: string

definition push :: "'a list \<Rightarrow> 'a \<Rightarrow> 'a list" where
  "push xs x = xs @ [x]"

text \<open>The icons are the bytes of the source's string literals.\<close>

definition zero_hires_alert :: "nat \<Rightarrow> alert" where
  "zero_hires_alert offered_count =
     \<lparr> severity = ''CRITICAL'',
       icon = [CHR 0xEF, CHR 0xA3, CHR 0xBF, CHR 0xC3, CHR 0xBC, CHR 0xC3, CHR 0xB6, CHR 0xC2,
               CHR 0xAE],
       title = ''Zero Hires from Offers'',
       message = show_nat offered_count @
         '' offers have been extended but 0 hires have been completed. Immediate action required to identify and resolve onboarding bottlenecks.'' \<rparr>"

definition bottleneck_alert :: "jsnum \<Rightarrow> alert" where
  "bottleneck_alert pct =
     \<lparr> severity = ''HIGH'',
       icon = [CHR 0xE2, CHR 0x80, CHR 0x9A, CHR 0xC3, CHR 0xB6, CHR 0xE2, CHR 0x80, CHR 0xA0,
               CHR 0xC3, CHR 0x94, CHR 0xE2, CHR 0x88, CHR 0x8F, CHR 0xC3, CHR 0xA8],
       title = ''Pipeline Bottleneck Detected'',
       message = toFixed1 pct @
         ''% of applications are stuck in the documentation stage. Review document requirements and candidate support processes.'' \<rparr>"

definition volume_decline_alert :: "nat \<Rightarrow> nat \<Rightarrow> alert" where
  "volume_decline_alert lastWeek prevWeek =
     \<lparr> severity = ''MEDIUM'',
       icon = [CHR 0xEF, CHR 0xA3, CHR 0xBF, CHR 0xC3, CHR 0xBC, CHR 0xC3, CHR 0xAC, CHR 0xC3,
               CHR 0xA2],
       title = ''Application Volume Decline'',
       message = ''Most recent week shows '' @ show_nat lastWeek @
         '' application(s), down from '' @ show_nat prevWeek @
         ''. Consider refreshing job postings or expanding sourcing channels.'' \<rparr>"

definition stale_jobs_alert :: "nat \<Rightarrow> alert" where
  "stale_jobs_alert n =
     \<lparr> severity = ''MEDIUM'',
       icon = [CHR 0xEF, CHR 0xA3, CHR 0xBF, CHR 0xC3, CHR 0xBC, CHR 0xC3, CHR 0xAC, CHR 0xC3,
               CHR 0xA3],
       title = ''Stale Job Postings'',
       message = show_nat n @
         '' job posting(s) have been open for over 300 days with minimal traction. Consider closing or refreshing these positions.'' \<rparr>"

definition identifyCriticalIssues :: "dashboard_data \<Rightarrow> alert list" where
  "identifyCriticalIssues dashboardData =
     (let alerts = [];
          funnel = calculateConversionFunnel dashboardData;
          pipeline = calculatePipelineBreakdown dashboardData;
          weeklyTrend = applicationsOverTime dashboardData;
          alerts = (if hired funnel = 0 \<and> 0 < offered funnel
                    then push alerts (zero_hires_alert (offered funnel)) else alerts);
          alerts = (if js_gt (percentage (advancedStage pipeline)) (num 40)
                    then push alerts (bottleneck_alert (percentage (advancedStage pipeline)))
                    else alerts);
          alerts = (if 2 \<le> length weeklyTrend
                    then (let lastWeek = CountDistinct_of_APPLICANT_ID
                                           (weeklyTrend ! (length weeklyTrend - 1));
                              prevWeek = CountDistinct_of_APPLICANT_ID
                                           (weeklyTrend ! (length weeklyTrend - 2))
                          in if js_lt (num lastWeek) (js_mul (num prevWeek) (Fin (1 / 2)))
                             then push alerts (volume_decline_alert lastWeek prevWeek)
                             else alerts)
                    else alerts);
          staleJobs = filter (\<lambda>job. js_gt (Fin (Days_Open job)) (num 300))
                        (byTeamJob dashboardData)
      in if 0 < length staleJobs
         then push alerts (stale_jobs_alert (length staleJobs)) else alerts)"

section \<open>Recruiter performance\<close>

text \<open>
  The counters of one owner while the records are read (suffix \<open>_r\<close>: the funnel's
  fields have the same names), and the finished entry with its three rates.
\<close>

record recruiter_counts =
  applications_r :: nat
  viewed_r :: nat
  interviewed_r :: nat
  offered_r :: nat

record recruiter_stats = recruiter_counts +
  viewRate :: jsnum
  interviewRate_r :: jsnum
  offerRate_r :: jsnum

text \<open>
  The property key of \<open>stats[owner]\<close>: the owner's string, or the name of \<open>null\<close> or
  \<open>undefined\<close>.
\<close>

fun property_key :: "jsval \<Rightarrow> string" where
  "property_key (Str s) = s"
| "property_key Null = ''null''"
| "property_key Undefined = ''undefined''"

text \<open>
  \<open>stats\<close> starts as the object literal \<open>{}\<close>, and \<open>stats[owner]\<close> is read through the
  prototype chain: for the name of a member of \<open>Object.prototype\<close> it is a function (for
  \<open>__proto__\<close> the prototype object), which is truthy before any record is read.
\<close>

definition object_prototype_members :: "string list" where
  "object_prototype_members =
     [''constructor'', ''__defineGetter__'', ''__defineSetter__'', ''hasOwnProperty'',
      ''__lookupGetter__'', ''__lookupSetter__'', ''isPrototypeOf'', ''propertyIsEnumerable'',
      ''toString'', ''valueOf'', ''__proto__'', ''toLocaleString'']"

text \<open>
  The callback of \<open>applicationDetails.forEach\<close>, on the own properties of \<open>stats\<close>. For
  an owner named like a member of \<open>Object.prototype\<close> the test \<open>!stats[owner]\<close> is false,
  no own property is made, and the increments go to the inherited object: the own
  properties stay as they are. (The script is not in strict mode, so the assignments of
  the later loop to a property of an inherited number do nothing.)
\<close>

definition count_application ::
  "(string \<rightharpoonup> recruiter_counts) \<Rightarrow> application_record \<Rightarrow> (string \<rightharpoonup> recruiter_counts)" where
  "count_application stats app =
     (let owner = property_key (get_field app ''Job Owner'')
      in if owner \<in> set object_prototype_members then stats
         else
           (let s = (case stats owner of
                       None \<Rightarrow> \<lparr> applications_r = 0, viewed_r = 0, interviewed_r = 0,
                                 offered_r = 0 \<rparr>
                     | Some s \<Rightarrow> s);
                s = s\<lparr> applications_r := applications_r s + 1 \<rparr>;
                s = (if truthy (get_field app ''Viewed By'')
                     then s\<lparr> viewed_r := viewed_r s + 1 \<rparr> else s);
                s = (if truthy (get_field app ''Interview Date'')
                     then s\<lparr> interviewed_r := interviewed_r s + 1 \<rparr> else s);
                s = (if truthy (get_field app ''Offer Date'')
                     then s\<lparr> offered_r := offered_r s + 1 \<rparr> else s)
            in stats(owner \<mapsto> s)))"

text \<open>
  The body of the loop \<open>for (const owner in stats)\<close>, for an own property of \<open>stats\<close>;
  the result maps each own property to its entry, as \<open>Object.entries\<close> lists them.
\<close>

definition calculate_rates :: "recruiter_counts \<Rightarrow> recruiter_stats" where
  "calculate_rates s =
     \<lparr> applications_r = applications_r s, viewed_r = viewed_r s,
       interviewed_r = interviewed_r s, offered_r = offered_r s,
       viewRate = js_mul (js_div (num (viewed_r s)) (num (applications_r s))) (num 100),
       interviewRate_r = js_mul (js_div (num (interviewed_r s)) (num (applications_r s))) (num 100),
       offerRate_r = js_mul (js_div (num (offered_r s)) (num (applications_r s))) (num 100) \<rparr>"

definition calculateRecruiterPerformance :: "dashboard_data \<Rightarrow> (string \<rightharpoonup> recruiter_stats)" where
  "calculateRecruiterPerformance dashboardData =
     (let stats = foldl count_application Map.empty (applicationDetails dashboardData)
      in (\<lambda>owner. map_option calculate_rates (stats owner)))"

section \<open>Quantities the statements below refer to\<close>

text \<open>All status labels of the lookup table, in the table's order.\<close>

definition mapped_statuses :: "string list" where
  "mapped_statuses =
     earlyStage_statuses @ activeEngagement_statuses @ advancedStage_statuses @ closed_statuses"

text \<open>The applicants of the entries whose label is in a list of statuses.\<close>

definition category_count :: "status_aggregate list \<Rightarrow> string list \<Rightarrow> nat" where
  "category_count sd cat =
     sum_list (map Applicants (filter (\<lambda>s. Application_State s \<in> set cat) sd))"

text \<open>The applicants of all entries.\<close>

definition grand_total :: "status_aggregate list \<Rightarrow> nat" where
  "grand_total sd = sum_list (map Applicants sd)"

text \<open>
  The denominator as the specification words it: the applicants of the entries whose
  label is in the lookup table only.
\<close>

definition spec_mapped_total :: "status_aggregate list \<Rightarrow> nat" where
  "spec_mapped_total sd = category_count sd mapped_statuses"

text \<open>The four counts added up.\<close>

definition count_sum :: "pipeline_breakdown \<Rightarrow> nat" where
  "count_sum b =
     count (earlyStage b) + count (activeEngagement b) + count (advancedStage b) + count (closed b)"

text \<open>
  The conditions of the four alert rules, on the data itself: the last and the previous
  point of the weekly series, and the number of postings open for more than 300 days.
\<close>

definition zero_hires_fires :: "dashboard_data \<Rightarrow> bool" where
  "zero_hires_fires dd =
     (0 < offered (calculateConversionFunnel dd) \<and> hired (calculateConversionFunnel dd) = 0)"

definition bottleneck_fires :: "dashboard_data \<Rightarrow> bool" where
  "bottleneck_fires dd = js_gt (percentage (advancedStage (calculatePipelineBreakdown dd))) (num 40)"

definition last_week :: "dashboard_data \<Rightarrow> nat" where
  "last_week dd = CountDistinct_of_APPLICANT_ID (last (applicationsOverTime dd))"

definition previous_week :: "dashboard_data \<Rightarrow> nat" where
  "previous_week dd = CountDistinct_of_APPLICANT_ID (last (butlast (applicationsOverTime dd)))"

definition volume_decline_fires :: "dashboard_data \<Rightarrow> bool" where
  "volume_decline_fires dd =
     (2 \<le> length (applicationsOverTime dd)
      \<and> (of_nat (last_week dd) :: rat) < of_nat (previous_week dd) * (1 / 2))"

definition stale_job_count :: "dashboard_data \<Rightarrow> nat" where
  "stale_job_count dd = length (filter (\<lambda>job. 300 < Days_Open job) (byTeamJob dd))"

definition stale_postings_fires :: "dashboard_data \<Rightarrow> bool" where
  "stale_postings_fires dd = (0 < stale_job_count dd)"

text \<open>The owner a record is counted under, and the counters of one owner in closed form.\<close>

definition owner_of :: "application_record \<Rightarrow> string" where
  "owner_of app = property_key (get_field app ''Job Owner'')"

definition group_counts :: "application_record list \<Rightarrow> string \<Rightarrow> recruiter_counts option" where
  "group_counts xs owner =
     (let g = filter (\<lambda>app. owner_of app = owner) xs
      in if g = [] \<or> owner \<in> set object_prototype_members then None
         else Some \<lparr> applications_r = length g,
                     viewed_r = length (filter (\<lambda>app. truthy (get_field app ''Viewed By'')) g),
                     interviewed_r = length (filter (\<lambda>app. truthy (get_field app ''Interview Date'')) g),
                     offered_r = length (filter (\<lambda>app. truthy (get_field app ''Offer Date'')) g) \<rparr>)"

section \<open>Double arithmetic\<close>

text \<open>
  The finite numbers above are exact. A statement about the rounding of doubles needs the
  arithmetic of IEEE 754 binary64: the result of an operation is its exact result rounded
  to the nearest double, ties to even, with 53 significant bits, subnormals below
  \<open>2 powi (-1022)\<close> and an infinity from \<open>2 ^ 1024\<close> on.
\<close>

definition round_even :: "rat \<Rightarrow> int" where
  "round_even x =
     (let f = \<lfloor>x\<rfloor>; d = x - of_int f
      in if d < 1 / 2 then f else if 1 / 2 < d then f + 1 else if even f then f else f + 1)"

text \<open>For \<open>0 < x\<close>: the exponent \<open>e\<close> with \<open>2 powi e \<le> x < 2 powi (e + 1)\<close>.\<close>

definition ilog2 :: "rat \<Rightarrow> int" where
  "ilog2 x =
     (if 1 \<le> x then int (floorlog 2 (nat \<lfloor>x\<rfloor>)) - 1
      else - int (floorlog 2 (nat \<lceil>1 / x\<rceil> - 1)))"

definition fl :: "rat \<Rightarrow> jsnum" where
  "fl x =
     (if x = 0 then Fin 0
      else let e = max (ilog2 \<bar>x\<bar>) (- 1022);
               q = 2 powi (e - 52);
               r = of_int (round_even (x / q)) * q
           in if 2 ^ 1024 \<le> \<bar>r\<bar> then (if 0 < x then PosInf else NegInf) else Fin r)"

fun rounded :: "jsnum \<Rightarrow> jsnum" where
  "rounded (Fin x) = fl x"
| "rounded PosInf = PosInf"
| "rounded NegInf = NegInf"
| "rounded NaN = NaN"

definition js_div64 :: "jsnum \<Rightarrow> jsnum \<Rightarrow> jsnum" where
  "js_div64 a b = rounded (js_div a b)"

definition js_mul64 :: "jsnum \<Rightarrow> jsnum \<Rightarrow> jsnum" where
  "js_mul64 a b = rounded (js_mul a b)"

definition js_add64 :: "jsnum \<Rightarrow> jsnum \<Rightarrow> jsnum" where
  "js_add64 a b = rounded (js_add a b)"

text \<open>
  The pipeline breakdown once more, with the division and the multiplication of
  \<open>count / total * 100\<close> in double arithmetic; the counts are sums of integers, which
  doubles hold exactly below \<open>2 ^ 53\<close>.
\<close>

definition breakdown_entry64 ::
  "status_aggregate list \<Rightarrow> nat \<Rightarrow> string list \<Rightarrow> stage_breakdown" where
  "breakdown_entry64 statusData total' statuses =
     (let count = foldl (\<lambda>sum s. sum + Applicants s) 0
                    (filter (\<lambda>s. Application_State s \<in> set statuses) statusData)
      in \<lparr> count = count,
           percentage = js_mul64 (js_div64 (num count) (num total')) (num 100) \<rparr>)"

definition calculatePipelineBreakdown64 :: "dashboard_data \<Rightarrow> pipeline_breakdown" where
  "calculatePipelineBreakdown64 dashboardData =
     (let statusData = applicantsByStatus dashboardData;
          total = foldl (\<lambda>sum s. sum + Applicants s) 0 statusData
      in \<lparr> earlyStage = breakdown_entry64 statusData total earlyStage_statuses,
           activeEngagement = breakdown_entry64 statusData total activeEngagement_statuses,
           advancedStage = breakdown_entry64 statusData total advancedStage_statuses,
           closed = breakdown_entry64 statusData total closed_statuses \<rparr>)"

text \<open>The four percentages added up from left to right with the \<open>+\<close> of doubles.\<close>

definition percentage_sum64 :: "pipeline_breakdown \<Rightarrow> jsnum" where
  "percentage_sum64 b =
     js_add64 (js_add64 (js_add64 (percentage (earlyStage b)) (percentage (activeEngagement b)))
       (percentage (advancedStage b))) (percentage (closed b))"

section \<open>Properties\<close>

subsection \<open>Conversion funnel\<close>

text \<open>
  C1. On an empty application-record collection \<open>calculateConversionFunnel\<close> returns
  a funnel (no exception), all five counts are 0, but each of the four rates is
  \<open>0 / 0\<close>, which is NaN and not 0: the function has no guard for an empty collection.
\<close>

theorem calculateConversionFunnel_empty_rates_NaN:
  "calculateConversionFunnel
     \<lparr> applicationDetails = [], applicantsByStatus = s, applicationsOverTime = w,
       byTeamJob = j \<rparr>
   = \<lparr> applications = 0, viewed = 0, viewedRate = NaN, interviewed = 0,
       interviewRate = NaN, offered = 0, offerRate = NaN, hired = 0, hireRate = NaN \<rparr>"
  by (simp add: calculateConversionFunnel_def num_def)

subsection \<open>Pipeline breakdown\<close>

lemma foldl_Applicants:
  "foldl (\<lambda>sum s. sum + Applicants s) a xs = a + sum_list (map Applicants xs)"
  by (induction xs arbitrary: a) simp_all

lemma sum_filter_if:
  "sum_list (map f (filter P xs)) = sum_list (map (\<lambda>x. if P x then f x else (0::nat)) xs)"
  by (induction xs) simp_all

text \<open>The four status lists are pairwise disjoint: a label is counted in one category at most.\<close>

lemma category_split:
  "(if l \<in> set earlyStage_statuses then (n::nat) else 0)
   + (if l \<in> set activeEngagement_statuses then n else 0)
   + (if l \<in> set advancedStage_statuses then n else 0)
   + (if l \<in> set closed_statuses then n else 0)
   = (if l \<in> set mapped_statuses then n else 0)"
  by (auto simp: mapped_statuses_def earlyStage_statuses_def activeEngagement_statuses_def
        advancedStage_statuses_def closed_statuses_def)

lemma four_counts_sum:
  "category_count sd earlyStage_statuses + category_count sd activeEngagement_statuses
   + category_count sd advancedStage_statuses + category_count sd closed_statuses
   = category_count sd mapped_statuses"
  unfolding category_count_def
proof (induction sd)
  case Nil
  show ?case by simp
next
  case (Cons s sd)
  have "(if Application_State s \<in> set earlyStage_statuses then Applicants s else 0)
   + (if Application_State s \<in> set activeEngagement_statuses then Applicants s else 0)
   + (if Application_State s \<in> set advancedStage_statuses then Applicants s else 0)
   + (if Application_State s \<in> set closed_statuses then Applicants s else 0)
   = (if Application_State s \<in> set mapped_statuses then Applicants s else 0)"
    by (rule category_split)
  with Cons.IH show ?case
    by (simp only: sum_filter_if list.map sum_list.Cons)
qed

lemma filtered_le_total:
  "sum_list (map Applicants (filter P sd)) \<le> sum_list (map Applicants sd)"
  by (induction sd) simp_all

lemma filtered_eq_total_iff:
  "sum_list (map Applicants (filter P sd)) = sum_list (map Applicants sd)
   \<longleftrightarrow> (\<forall>s \<in> set sd. \<not> P s \<longrightarrow> Applicants s = 0)"
proof (induction sd)
  case Nil
  show ?case by simp
next
  case (Cons s sd)
  have le: "sum_list (map Applicants (filter P sd)) \<le> sum_list (map Applicants sd)"
    by (rule filtered_le_total)
  show ?case
  proof (cases "P s")
    case True
    with Cons.IH show ?thesis by simp
  next
    case False
    with Cons.IH le show ?thesis by auto
  qed
qed

lemma category_count_le: "category_count sd cat \<le> grand_total sd"
  unfolding category_count_def grand_total_def by (rule filtered_le_total)

lemma breakdown_entry_eq:
  "breakdown_entry sd t cat =
     \<lparr> count = category_count sd cat,
       percentage = js_mul (js_div (num (category_count sd cat)) (num t)) (num 100) \<rparr>"
  by (simp add: breakdown_entry_def foldl_Applicants Let_def category_count_def)

lemma calculatePipelineBreakdown_eq:
  "calculatePipelineBreakdown dd =
     \<lparr> earlyStage = breakdown_entry (applicantsByStatus dd) (grand_total (applicantsByStatus dd))
                      earlyStage_statuses,
       activeEngagement = breakdown_entry (applicantsByStatus dd) (grand_total (applicantsByStatus dd))
                      activeEngagement_statuses,
       advancedStage = breakdown_entry (applicantsByStatus dd) (grand_total (applicantsByStatus dd))
                      advancedStage_statuses,
       closed = breakdown_entry (applicantsByStatus dd) (grand_total (applicantsByStatus dd))
                      closed_statuses \<rparr>"
  by (simp add: calculatePipelineBreakdown_def Let_def foldl_Applicants grand_total_def)

lemma percentage_pos_total:
  "0 < t \<Longrightarrow> js_mul (js_div (num c) (num t)) (num 100) = Fin (of_nat c / of_nat t * 100)"
  by (simp add: num_def)

lemma percentage_zero_total:
  "js_mul (js_div (num 0) (num 0)) (num 100) = NaN"
  by (simp add: num_def)

lemma count_sum_eq:
  "count_sum (calculatePipelineBreakdown dd) = spec_mapped_total (applicantsByStatus dd)"
  unfolding count_sum_def spec_mapped_total_def calculatePipelineBreakdown_eq breakdown_entry_eq
  by (simp add: four_counts_sum)

text \<open>
  C2, as the code has it. The entries whose label is in none of the four status lists
  are left out of the four category counts, but not out of the denominator: when the
  applicants of all entries add up to more than 0, each category's percentage is its
  count divided by the applicants of all entries, mapped or not, times 100.
\<close>

theorem calculatePipelineBreakdown_percentage_of_grand_total:
  assumes "0 < grand_total (applicantsByStatus dd)"
  shows "earlyStage (calculatePipelineBreakdown dd) =
           \<lparr> count = category_count (applicantsByStatus dd) earlyStage_statuses,
             percentage = Fin (of_nat (category_count (applicantsByStatus dd) earlyStage_statuses)
                               / of_nat (grand_total (applicantsByStatus dd)) * 100) \<rparr>
       \<and> activeEngagement (calculatePipelineBreakdown dd) =
           \<lparr> count = category_count (applicantsByStatus dd) activeEngagement_statuses,
             percentage = Fin (of_nat (category_count (applicantsByStatus dd) activeEngagement_statuses)
                               / of_nat (grand_total (applicantsByStatus dd)) * 100) \<rparr>
       \<and> advancedStage (calculatePipelineBreakdown dd) =
           \<lparr> count = category_count (applicantsByStatus dd) advancedStage_statuses,
             percentage = Fin (of_nat (category_count (applicantsByStatus dd) advancedStage_statuses)
                               / of_nat (grand_total (applicantsByStatus dd)) * 100) \<rparr>
       \<and> closed (calculatePipelineBreakdown dd) =
           \<lparr> count = category_count (applicantsByStatus dd) closed_statuses,
             percentage = Fin (of_nat (category_count (applicantsByStatus dd) closed_statuses)
                               / of_nat (grand_total (applicantsByStatus dd)) * 100) \<rparr>"
  using assms
  by (simp add: calculatePipelineBreakdown_eq breakdown_entry_eq percentage_pos_total)

theorem calculatePipelineBreakdown_percentage_of_grand_total_witness:
  "0 < grand_total [\<lparr> Application_State = ''New'', Applicants = 1 \<rparr>,
                    \<lparr> Application_State = ''Hired'', Applicants = 1 \<rparr>]
   \<and> earlyStage (calculatePipelineBreakdown
        \<lparr> applicationDetails = [],
          applicantsByStatus = [\<lparr> Application_State = ''New'', Applicants = 1 \<rparr>,
                                \<lparr> Application_State = ''Hired'', Applicants = 1 \<rparr>],
          applicationsOverTime = [], byTeamJob = [] \<rparr>)
       = \<lparr> count = 1, percentage = Fin 50 \<rparr>"
  using calculatePipelineBreakdown_percentage_of_grand_total
    [of "\<lparr> applicationDetails = [],
           applicantsByStatus = [\<lparr> Application_State = ''New'', Applicants = 1 \<rparr>,
                                 \<lparr> Application_State = ''Hired'', Applicants = 1 \<rparr>],
           applicationsOverTime = [], byTeamJob = [] \<rparr>"]
  by (simp add: grand_total_def category_count_def earlyStage_statuses_def)

text \<open>
  C2 as stated fails: with one applicant under \<open>New\<close> and one under the unmapped label
  \<open>Hired\<close>, the early-stage percentage is 50, where the count divided by the applicants
  of the mapped labels only, times 100, is 100.
\<close>

theorem calculatePipelineBreakdown_mapped_only_counterexample:
  "percentage (earlyStage (calculatePipelineBreakdown
      \<lparr> applicationDetails = [],
        applicantsByStatus = [\<lparr> Application_State = ''New'', Applicants = 1 \<rparr>,
                              \<lparr> Application_State = ''Hired'', Applicants = 1 \<rparr>],
        applicationsOverTime = [], byTeamJob = [] \<rparr>)) = Fin 50
   \<and> js_mul (js_div
        (num (category_count [\<lparr> Application_State = ''New'', Applicants = 1 \<rparr>,
                              \<lparr> Application_State = ''Hired'', Applicants = 1 \<rparr>]
                earlyStage_statuses))
        (num (spec_mapped_total [\<lparr> Application_State = ''New'', Applicants = 1 \<rparr>,
                                 \<lparr> Application_State = ''Hired'', Applicants = 1 \<rparr>])))
       (num 100) = Fin 100"
  by (simp add: calculatePipelineBreakdown_eq breakdown_entry_eq category_count_def grand_total_def
        spec_mapped_total_def mapped_statuses_def earlyStage_statuses_def activeEngagement_statuses_def
        advancedStage_statuses_def closed_statuses_def num_def)

text \<open>
  C3. When the applicants of all entries add up to 0 (the empty collection among them),
  \<open>calculatePipelineBreakdown\<close> returns a breakdown (no exception) whose four counts
  are 0, but each of the four percentages is \<open>0 / 0 * 100\<close>, which is NaN and not 0:
  the function has no guard for a zero total.
\<close>

theorem calculatePipelineBreakdown_zero_total_NaN:
  assumes "grand_total (applicantsByStatus dd) = 0"
  shows "calculatePipelineBreakdown dd =
           \<lparr> earlyStage = \<lparr> count = 0, percentage = NaN \<rparr>,
             activeEngagement = \<lparr> count = 0, percentage = NaN \<rparr>,
             advancedStage = \<lparr> count = 0, percentage = NaN \<rparr>,
             closed = \<lparr> count = 0, percentage = NaN \<rparr> \<rparr>"
proof -
  have "category_count (applicantsByStatus dd) cat = 0" for cat
    using category_count_le [of "applicantsByStatus dd" cat] assms by simp
  then show ?thesis
    by (simp add: calculatePipelineBreakdown_eq breakdown_entry_eq assms percentage_zero_total)
qed

theorem calculatePipelineBreakdown_zero_total_NaN_witness:
  "grand_total [] = 0 \<and>
   calculatePipelineBreakdown
     \<lparr> applicationDetails = [], applicantsByStatus = [], applicationsOverTime = [],
       byTeamJob = [] \<rparr>
   = \<lparr> earlyStage = \<lparr> count = 0, percentage = NaN \<rparr>,
       activeEngagement = \<lparr> count = 0, percentage = NaN \<rparr>,
       advancedStage = \<lparr> count = 0, percentage = NaN \<rparr>,
       closed = \<lparr> count = 0, percentage = NaN \<rparr> \<rparr>"
  using calculatePipelineBreakdown_zero_total_NaN
    [of "\<lparr> applicationDetails = [], applicantsByStatus = [], applicationsOverTime = [],
           byTeamJob = [] \<rparr>"]
  by (simp add: grand_total_def)

subsection \<open>Rounding to doubles\<close>

lemma round_even_error: "\<bar>of_int (round_even y) - y\<bar> \<le> 1 / 2"
proof -
  have "of_int \<lfloor>y\<rfloor> \<le> y" "y < of_int \<lfloor>y\<rfloor> + 1"
    by linarith+
  then show ?thesis
    by (auto simp: round_even_def Let_def)
qed

lemma round_even_nonneg: "0 \<le> y \<Longrightarrow> 0 \<le> round_even y"
proof -
  assume "0 \<le> y"
  then have "0 \<le> \<lfloor>y\<rfloor>" by simp
  then show ?thesis
    by (auto simp: round_even_def Let_def)
qed

lemma ilog2_lower:
  assumes "0 < x"
  shows "2 powi (ilog2 x) \<le> x"
proof (cases "1 \<le> x")
  case True
  define n where "n = nat \<lfloor>x\<rfloor>"
  from True have n: "0 < n" and nx: "of_nat n \<le> x"
    unfolding n_def by (simp_all add: floor_less_iff)
  from floorlog_bounds [of n 2] n have b: "2 ^ (floorlog 2 n - 1) \<le> n"
    by simp
  from n have fpos: "0 < floorlog 2 n"
    by (simp add: floorlog_def)
  have "ilog2 x = int (floorlog 2 n - 1)"
    using True fpos by (simp add: ilog2_def n_def)
  then have "(2::rat) powi (ilog2 x) = 2 ^ (floorlog 2 n - 1)"
    by simp
  also have "\<dots> = of_nat (2 ^ (floorlog 2 n - 1))"
    by simp
  also have "\<dots> \<le> of_nat n"
    using b by (simp only: of_nat_le_iff)
  finally show ?thesis using nx by simp
next
  case False
  define m where "m = nat \<lceil>1 / x\<rceil>"
  define k where "k = floorlog 2 (m - 1)"
  from False assms have inv: "1 < 1 / x" by simp
  then have "1 < \<lceil>1 / x\<rceil>" by (simp add: less_ceiling_iff)
  then have m2: "2 \<le> m" unfolding m_def by linarith
  have xm: "1 / x \<le> of_nat m"
  proof -
    have "1 / x \<le> of_int \<lceil>1 / x\<rceil>" by (rule le_of_int_ceiling)
    also have "\<dots> = of_nat m" using inv unfolding m_def by simp
    finally show ?thesis .
  qed
  from floorlog_bounds [of "m - 1" 2] m2 have "m - 1 < 2 ^ k"
    unfolding k_def by simp
  then have "m \<le> 2 ^ k" by simp
  then have "(of_nat m :: rat) \<le> of_nat (2 ^ k)"
    by (simp only: of_nat_le_iff)
  also have "(of_nat (2 ^ k) :: rat) = 2 ^ k" by simp
  finally have "(of_nat m :: rat) \<le> 2 ^ k" .
  with xm have le: "1 / x \<le> 2 ^ k" by (rule order_trans)
  have "ilog2 x = - int k"
    using False by (simp add: ilog2_def m_def k_def)
  then have "(2::rat) powi (ilog2 x) = 1 / 2 ^ k"
    by (simp add: power_int_minus_divide)
  also have "\<dots> \<le> x"
    using le assms by (simp add: field_simps)
  finally show ?thesis .
qed

text \<open>
  The rounding error of a value between 0 and 1000: at most the fraction \<open>1 / 2 ^ 53\<close> of
  the value among the normal doubles, half the spacing \<open>2 powi (-1074)\<close> of the subnormal
  ones below them.
\<close>

lemma fl_bound:
  assumes "0 \<le> x" and "x \<le> 1000"
  shows "\<exists>r. fl x = Fin r \<and> 0 \<le> r \<and> r \<le> x * (1 + 1 / 2 ^ 53) + 1 / 2 ^ 100
             \<and> x * (1 - 1 / 2 ^ 53) - 1 / 2 ^ 100 \<le> r"
proof (cases "x = 0")
  case True
  then show ?thesis by (simp add: fl_def)
next
  case False
  with assms have pos: "0 < x" by simp
  define e where "e = max (ilog2 x) (- 1022)"
  define q :: rat where "q = 2 powi (e - 52)"
  define r :: rat where "r = of_int (round_even (x / q)) * q"
  have qpos: "0 < q" unfolding q_def by simp
  have half: "q / 2 \<le> x / 2 ^ 53 + 1 / 2 ^ 100"
  proof (cases "- 1022 \<le> ilog2 x")
    case True
    then have "e = ilog2 x" unfolding e_def by simp
    then have "q = 2 powi (ilog2 x) / 2 ^ 52"
      unfolding q_def by (simp add: power_int_diff)
    also have "\<dots> \<le> x / 2 ^ 52"
      using ilog2_lower [OF pos] by (simp add: divide_right_mono)
    finally have "q / 2 \<le> x / 2 ^ 52 / 2" by simp
    then show ?thesis by simp
  next
    case False
    then have "e = - 1022" unfolding e_def by simp
    then have "q = 1 / 2 ^ 1074"
      unfolding q_def by (simp add: power_int_minus_divide)
    then show ?thesis using pos by simp
  qed
  have "\<bar>of_int (round_even (x / q)) - x / q\<bar> \<le> 1 / 2"
    by (rule round_even_error)
  then have "\<bar>of_int (round_even (x / q)) - x / q\<bar> * q \<le> 1 / 2 * q"
    using qpos by (intro mult_right_mono) simp_all
  moreover have "\<bar>of_int (round_even (x / q)) - x / q\<bar> * q = \<bar>r - x\<bar>"
  proof -
    have "\<bar>of_int (round_even (x / q)) - x / q\<bar> * q
          = \<bar>(of_int (round_even (x / q)) - x / q) * q\<bar>"
      using qpos by (simp add: abs_mult)
    also have "(of_int (round_even (x / q)) - x / q) * q = r - x"
      using qpos by (simp add: r_def algebra_simps)
    finally show ?thesis .
  qed
  ultimately have err: "\<bar>r - x\<bar> \<le> q / 2" by simp
  have r0: "0 \<le> r"
    unfolding r_def using qpos pos round_even_nonneg [of "x / q"] by simp
  from err have "r - x \<le> q / 2" by linarith
  with half have "r \<le> x + x / 2 ^ 53 + 1 / 2 ^ 100" by linarith
  then have up: "r \<le> x * (1 + 1 / 2 ^ 53) + 1 / 2 ^ 100"
    by (simp add: algebra_simps)
  from err have "x - r \<le> q / 2" by linarith
  with half have "x - x / 2 ^ 53 - 1 / 2 ^ 100 \<le> r" by linarith
  then have low: "x * (1 - 1 / 2 ^ 53) - 1 / 2 ^ 100 \<le> r"
    by (simp add: algebra_simps)
  have "r \<le> 1000 * (1 + 1 / 2 ^ 53) + 1 / 2 ^ 100"
    using up assms(2) by (simp add: algebra_simps)
  also have "\<dots> < 2 ^ 1024" by simp
  finally have fin: "\<not> 2 ^ 1024 \<le> \<bar>r\<bar>" using r0 by simp
  have "fl x = Fin r"
    using False pos fin by (simp add: fl_def Let_def e_def [symmetric] q_def [symmetric]
        r_def [symmetric])
  with r0 up low show ?thesis by blast
qed

lemma percentage64_bound:
  assumes "0 < t" and "c \<le> t"
  shows "\<exists>p. js_mul64 (js_div64 (num c) (num t)) (num 100) = Fin p \<and> 0 \<le> p
             \<and> p \<le> of_nat c / of_nat t * (100 + 1 / 2 ^ 45) + 1 / 2 ^ 90
             \<and> of_nat c / of_nat t * (100 - 1 / 2 ^ 45) - 1 / 2 ^ 90 \<le> p"
proof -
  define a :: rat where "a = of_nat c / of_nat t"
  from assms have a0: "0 \<le> a" and a1: "a \<le> 1"
    unfolding a_def by simp_all
  from a0 a1 have "a \<le> 1000" by simp
  from fl_bound [OF a0 this] obtain r1 where r1: "fl a = Fin r1" "0 \<le> r1"
    and r1_up: "r1 \<le> a * (1 + 1 / 2 ^ 53) + 1 / 2 ^ 100"
    and r1_low: "a * (1 - 1 / 2 ^ 53) - 1 / 2 ^ 100 \<le> r1"
    by blast
  have r1_small: "r1 * 100 \<le> 1000"
    using r1_up a1 by (simp add: distrib_right add_divide_distrib; linarith)
  have r1_pos: "0 \<le> r1 * 100"
    using r1(2) by simp
  from fl_bound [OF r1_pos r1_small] obtain p where p: "fl (r1 * 100) = Fin p" "0 \<le> p"
    and p_up: "p \<le> r1 * 100 * (1 + 1 / 2 ^ 53) + 1 / 2 ^ 100"
    and p_low: "r1 * 100 * (1 - 1 / 2 ^ 53) - 1 / 2 ^ 100 \<le> p"
    by blast
  have "js_mul64 (js_div64 (num c) (num t)) (num 100) = Fin p"
    using assms(1) by (simp add: js_mul64_def js_div64_def num_def a_def [symmetric] r1(1) p(1))
  moreover have "p \<le> a * (100 + 1 / 2 ^ 45) + 1 / 2 ^ 90"
    using p_up r1_up a0 by (simp add: distrib_right add_divide_distrib; linarith)
  moreover have "a * (100 - 1 / 2 ^ 45) - 1 / 2 ^ 90 \<le> p"
    using p_low r1_low a0
    by (simp add: distrib_right left_diff_distrib add_divide_distrib diff_divide_distrib; linarith)
  ultimately show ?thesis
    using p(2) unfolding a_def by blast
qed

lemma js_add64_bound:
  assumes "0 \<le> x" and "0 \<le> y" and "x + y \<le> 1000"
  shows "\<exists>s. js_add64 (Fin x) (Fin y) = Fin s \<and> 0 \<le> s
             \<and> s \<le> (x + y) * (1 + 1 / 2 ^ 53) + 1 / 2 ^ 100
             \<and> (x + y) * (1 - 1 / 2 ^ 53) - 1 / 2 ^ 100 \<le> s"
proof -
  from assms have "0 \<le> x + y" by simp
  from fl_bound [OF this assms(3)] show ?thesis
    by (simp add: js_add64_def)
qed

lemma breakdown_entry64_eq:
  "breakdown_entry64 sd t cat =
     \<lparr> count = category_count sd cat,
       percentage = js_mul64 (js_div64 (num (category_count sd cat)) (num t)) (num 100) \<rparr>"
  by (simp add: breakdown_entry64_def foldl_Applicants Let_def category_count_def)

lemma calculatePipelineBreakdown64_eq:
  "calculatePipelineBreakdown64 dd =
     \<lparr> earlyStage = breakdown_entry64 (applicantsByStatus dd)
                      (grand_total (applicantsByStatus dd)) earlyStage_statuses,
       activeEngagement = breakdown_entry64 (applicantsByStatus dd)
                      (grand_total (applicantsByStatus dd)) activeEngagement_statuses,
       advancedStage = breakdown_entry64 (applicantsByStatus dd)
                      (grand_total (applicantsByStatus dd)) advancedStage_statuses,
       closed = breakdown_entry64 (applicantsByStatus dd)
                      (grand_total (applicantsByStatus dd)) closed_statuses \<rparr>"
  by (simp add: calculatePipelineBreakdown64_def Let_def foldl_Applicants grand_total_def)

lemma count_sum64_eq:
  "count_sum (calculatePipelineBreakdown64 dd) = spec_mapped_total (applicantsByStatus dd)"
  unfolding count_sum_def spec_mapped_total_def calculatePipelineBreakdown64_eq
    breakdown_entry64_eq
  by (simp add: four_counts_sum)

lemma percentage_sum64_bound:
  assumes pos: "0 < grand_total (applicantsByStatus dd)"
  shows "\<exists>p. percentage_sum64 (calculatePipelineBreakdown64 dd) = Fin p
             \<and> p \<le> 100 + 1 / 10 ^ 13
             \<and> (spec_mapped_total (applicantsByStatus dd) = grand_total (applicantsByStatus dd)
                  \<longrightarrow> 100 - 1 / 10 ^ 13 \<le> p)"
proof -
  let ?sd = "applicantsByStatus dd"
  let ?t = "grand_total ?sd"
  define a1 :: rat where "a1 = of_nat (category_count ?sd earlyStage_statuses) / of_nat ?t"
  define a2 :: rat where "a2 = of_nat (category_count ?sd activeEngagement_statuses) / of_nat ?t"
  define a3 :: rat where "a3 = of_nat (category_count ?sd advancedStage_statuses) / of_nat ?t"
  define a4 :: rat where "a4 = of_nat (category_count ?sd closed_statuses) / of_nat ?t"
  have sum_a: "a1 + a2 + a3 + a4 = of_nat (spec_mapped_total ?sd) / of_nat ?t"
    unfolding a1_def a2_def a3_def a4_def spec_mapped_total_def four_counts_sum [symmetric]
    by (simp add: add_divide_distrib)
  have "spec_mapped_total ?sd \<le> ?t"
    unfolding spec_mapped_total_def by (rule category_count_le)
  then have "(of_nat (spec_mapped_total ?sd) :: rat) \<le> of_nat ?t"
    by (simp only: of_nat_le_iff)
  then have total: "a1 + a2 + a3 + a4 \<le> 1"
    using pos unfolding sum_a by simp
  have full: "a1 + a2 + a3 + a4 = 1" if "spec_mapped_total ?sd = ?t"
    using pos that unfolding sum_a by simp
  from percentage64_bound [OF pos category_count_le, of earlyStage_statuses]
  obtain p1 where p1: "js_mul64 (js_div64 (num (category_count ?sd earlyStage_statuses))
                         (num ?t)) (num 100) = Fin p1" "0 \<le> p1"
    and u1: "p1 \<le> a1 * (100 + 1 / 2 ^ 45) + 1 / 2 ^ 90"
    and l1: "a1 * (100 - 1 / 2 ^ 45) - 1 / 2 ^ 90 \<le> p1"
    unfolding a1_def by blast
  from percentage64_bound [OF pos category_count_le, of activeEngagement_statuses]
  obtain p2 where p2: "js_mul64 (js_div64 (num (category_count ?sd activeEngagement_statuses))
                         (num ?t)) (num 100) = Fin p2" "0 \<le> p2"
    and u2: "p2 \<le> a2 * (100 + 1 / 2 ^ 45) + 1 / 2 ^ 90"
    and l2: "a2 * (100 - 1 / 2 ^ 45) - 1 / 2 ^ 90 \<le> p2"
    unfolding a2_def by blast
  from percentage64_bound [OF pos category_count_le, of advancedStage_statuses]
  obtain p3 where p3: "js_mul64 (js_div64 (num (category_count ?sd advancedStage_statuses))
                         (num ?t)) (num 100) = Fin p3" "0 \<le> p3"
    and u3: "p3 \<le> a3 * (100 + 1 / 2 ^ 45) + 1 / 2 ^ 90"
    and l3: "a3 * (100 - 1 / 2 ^ 45) - 1 / 2 ^ 90 \<le> p3"
    unfolding a3_def by blast
  from percentage64_bound [OF pos category_count_le, of closed_statuses]
  obtain p4 where p4: "js_mul64 (js_div64 (num (category_count ?sd closed_statuses))
                         (num ?t)) (num 100) = Fin p4" "0 \<le> p4"
    and u4: "p4 \<le> a4 * (100 + 1 / 2 ^ 45) + 1 / 2 ^ 90"
    and l4: "a4 * (100 - 1 / 2 ^ 45) - 1 / 2 ^ 90 \<le> p4"
    unfolding a4_def by blast
  have n: "0 \<le> a1" "0 \<le> a2" "0 \<le> a3" "0 \<le> a4"
    unfolding a1_def a2_def a3_def a4_def by simp_all
  have b12: "p1 + p2 \<le> 1000"
    using u1 u2 n total by (simp add: distrib_right add_divide_distrib; linarith)
  from js_add64_bound [OF p1(2) p2(2) b12]
  obtain s12 where s12: "js_add64 (Fin p1) (Fin p2) = Fin s12" "0 \<le> s12"
    and v12: "s12 \<le> (p1 + p2) * (1 + 1 / 2 ^ 53) + 1 / 2 ^ 100"
    and w12: "(p1 + p2) * (1 - 1 / 2 ^ 53) - 1 / 2 ^ 100 \<le> s12"
    by blast
  have b123: "s12 + p3 \<le> 1000"
    using v12 u1 u2 u3 n total by (simp add: distrib_right add_divide_distrib; linarith)
  from js_add64_bound [OF s12(2) p3(2) b123]
  obtain s123 where s123: "js_add64 (Fin s12) (Fin p3) = Fin s123" "0 \<le> s123"
    and v123: "s123 \<le> (s12 + p3) * (1 + 1 / 2 ^ 53) + 1 / 2 ^ 100"
    and w123: "(s12 + p3) * (1 - 1 / 2 ^ 53) - 1 / 2 ^ 100 \<le> s123"
    by blast
  have b1234: "s123 + p4 \<le> 1000"
    using v123 v12 u1 u2 u3 u4 n total by (simp add: distrib_right add_divide_distrib; linarith)
  from js_add64_bound [OF s123(2) p4(2) b1234]
  obtain s where s: "js_add64 (Fin s123) (Fin p4) = Fin s" "0 \<le> s"
    and v: "s \<le> (s123 + p4) * (1 + 1 / 2 ^ 53) + 1 / 2 ^ 100"
    and w: "(s123 + p4) * (1 - 1 / 2 ^ 53) - 1 / 2 ^ 100 \<le> s"
    by blast
  have "percentage_sum64 (calculatePipelineBreakdown64 dd) = Fin s"
    by (simp add: percentage_sum64_def calculatePipelineBreakdown64_eq breakdown_entry64_eq
          p1(1) p2(1) p3(1) p4(1) s12(1) s123(1) s(1))
  moreover have "s \<le> 100 + 1 / 10 ^ 13"
    using v v123 v12 u1 u2 u3 u4 n total p1(2) p2(2) p3(2) p4(2) s12(2) s123(2)
    by (simp add: distrib_right add_divide_distrib; linarith)
  moreover have "100 - 1 / 10 ^ 13 \<le> s" if "spec_mapped_total ?sd = ?t"
    using w w123 w12 l1 l2 l3 l4 n full [OF that] p1(2) p2(2) p3(2) p4(2) s12(2) s123(2)
    by (simp add: distrib_right left_diff_distrib add_divide_distrib diff_divide_distrib;
        linarith)
  ultimately show ?thesis by blast
qed

text \<open>
  With nine applicants under \<open>Sent Documents\<close> and two under \<open>Not Qualified\<close> the
  four percentages add up to \<open>100 + 1 / 2 ^ 46\<close>, the double next above 100, which
  prints as 100.00000000000001.
\<close>

lemma percentage_sum64_example:
  "percentage_sum64 (calculatePipelineBreakdown64
      \<lparr> applicationDetails = [],
        applicantsByStatus = [\<lparr> Application_State = ''Sent Documents'', Applicants = 9 \<rparr>,
                              \<lparr> Application_State = ''Not Qualified'', Applicants = 2 \<rparr>],
        applicationsOverTime = [], byTeamJob = [] \<rparr>) = Fin (100 + 1 / 2 ^ 46)"
  by code_simp

text \<open>
  C8, as the code has it. The four category counts add up to at most the applicants of
  all entries, with equality if and only if every entry whose label is not in the lookup
  table has 0 applicants (so whenever every label is in the table). When every label is
  in the table and the applicants of all entries add up to more than 0, the four
  percentages, computed and added up in double arithmetic, give a finite number that is
  at most 100 within the tolerance \<open>1 / 10 ^ 13\<close> (and not below 100 by more than
  that).
\<close>

theorem calculatePipelineBreakdown_completeness:
  "count_sum (calculatePipelineBreakdown dd) \<le> grand_total (applicantsByStatus dd)
   \<and> (count_sum (calculatePipelineBreakdown dd) = grand_total (applicantsByStatus dd)
        \<longleftrightarrow> (\<forall>s \<in> set (applicantsByStatus dd).
               Application_State s \<notin> set mapped_statuses \<longrightarrow> Applicants s = 0))
   \<and> ((\<forall>s \<in> set (applicantsByStatus dd). Application_State s \<in> set mapped_statuses)
        \<longrightarrow> count_sum (calculatePipelineBreakdown dd) = grand_total (applicantsByStatus dd))
   \<and> count_sum (calculatePipelineBreakdown64 dd) = count_sum (calculatePipelineBreakdown dd)
   \<and> ((\<forall>s \<in> set (applicantsByStatus dd). Application_State s \<in> set mapped_statuses)
        \<and> 0 < grand_total (applicantsByStatus dd)
        \<longrightarrow> (\<exists>p. percentage_sum64 (calculatePipelineBreakdown64 dd) = Fin p
                 \<and> 100 - 1 / 10 ^ 13 \<le> p \<and> p \<le> 100 + 1 / 10 ^ 13))"
proof -
  let ?sd = "applicantsByStatus dd"
  let ?b = "calculatePipelineBreakdown dd"
  have le: "count_sum ?b \<le> grand_total ?sd"
    unfolding count_sum_eq spec_mapped_total_def by (rule category_count_le)
  have eq: "count_sum ?b = grand_total ?sd
        \<longleftrightarrow> (\<forall>s \<in> set ?sd. Application_State s \<notin> set mapped_statuses \<longrightarrow> Applicants s = 0)"
    unfolding count_sum_eq spec_mapped_total_def category_count_def grand_total_def
    by (rule filtered_eq_total_iff)
  have all: "count_sum ?b = grand_total ?sd"
    if "\<forall>s \<in> set ?sd. Application_State s \<in> set mapped_statuses"
    using that eq by blast
  have same: "count_sum (calculatePipelineBreakdown64 dd) = count_sum ?b"
    by (simp only: count_sum64_eq count_sum_eq)
  have pct: "\<exists>p. percentage_sum64 (calculatePipelineBreakdown64 dd) = Fin p
                 \<and> 100 - 1 / 10 ^ 13 \<le> p \<and> p \<le> 100 + 1 / 10 ^ 13"
    if m: "\<forall>s \<in> set ?sd. Application_State s \<in> set mapped_statuses"
      and pos: "0 < grand_total ?sd"
  proof -
    from all [OF m] have "spec_mapped_total ?sd = grand_total ?sd"
      by (simp only: count_sum_eq)
    with percentage_sum64_bound [OF pos] show ?thesis by blast
  qed
  from le eq all same pct show ?thesis by blast
qed

theorem calculatePipelineBreakdown_completeness_witness:
  "''Sent Documents'' \<in> set mapped_statuses \<and> ''Not Qualified'' \<in> set mapped_statuses
   \<and> 0 < grand_total [\<lparr> Application_State = ''Sent Documents'', Applicants = 9 \<rparr>,
                      \<lparr> Application_State = ''Not Qualified'', Applicants = 2 \<rparr>]
   \<and> count_sum (calculatePipelineBreakdown
        \<lparr> applicationDetails = [],
          applicantsByStatus = [\<lparr> Application_State = ''Sent Documents'', Applicants = 9 \<rparr>,
                                \<lparr> Application_State = ''Not Qualified'', Applicants = 2 \<rparr>],
          applicationsOverTime = [], byTeamJob = [] \<rparr>) = 11
   \<and> (\<exists>p. percentage_sum64 (calculatePipelineBreakdown64
        \<lparr> applicationDetails = [],
          applicantsByStatus = [\<lparr> Application_State = ''Sent Documents'', Applicants = 9 \<rparr>,
                                \<lparr> Application_State = ''Not Qualified'', Applicants = 2 \<rparr>],
          applicationsOverTime = [], byTeamJob = [] \<rparr>) = Fin p
        \<and> 100 - 1 / 10 ^ 13 \<le> p \<and> p \<le> 100 + 1 / 10 ^ 13)"
  using calculatePipelineBreakdown_completeness
    [of "\<lparr> applicationDetails = [],
           applicantsByStatus = [\<lparr> Application_State = ''Sent Documents'', Applicants = 9 \<rparr>,
                                 \<lparr> Application_State = ''Not Qualified'', Applicants = 2 \<rparr>],
           applicationsOverTime = [], byTeamJob = [] \<rparr>"]
  by (simp add: grand_total_def mapped_statuses_def advancedStage_statuses_def
        closed_statuses_def)

text \<open>
  C8 as stated fails: an entry with the unmapped label \<open>Hired\<close> and 0 applicants gives
  four counts that add up to the applicants of all entries, although a label of the
  collection is not in the lookup table.
\<close>

theorem calculatePipelineBreakdown_equality_counterexample:
  "count_sum (calculatePipelineBreakdown
      \<lparr> applicationDetails = [],
        applicantsByStatus = [\<lparr> Application_State = ''Hired'', Applicants = 0 \<rparr>],
        applicationsOverTime = [], byTeamJob = [] \<rparr>)
   = grand_total [\<lparr> Application_State = ''Hired'', Applicants = 0 \<rparr>]
   \<and> ''Hired'' \<notin> set mapped_statuses"
  by (simp add: count_sum_eq spec_mapped_total_def category_count_def grand_total_def
        mapped_statuses_def earlyStage_statuses_def activeEngagement_statuses_def
        advancedStage_statuses_def closed_statuses_def)

subsection \<open>Critical alerts\<close>

lemma nth_last_two:
  assumes "2 \<le> length w"
  shows "w ! (length w - Suc 0) = last w" and "w ! (length w - 2) = last (butlast w)"
proof -
  from assms have ne: "w \<noteq> []" by auto
  then show "w ! (length w - Suc 0) = last w" by (simp add: last_conv_nth)
  from assms have ne': "butlast w \<noteq> []" by (cases w) (auto split: if_splits)
  have idx: "length (butlast w) - 1 = length w - 2" by simp
  have "last (butlast w) = butlast w ! (length (butlast w) - 1)"
    using ne' by (rule last_conv_nth)
  also have "\<dots> = butlast w ! (length w - 2)" by (simp only: idx)
  also have "\<dots> = w ! (length w - 2)"
    using assms by (intro nth_butlast) simp
  finally show "w ! (length w - 2) = last (butlast w)" by simp
qed

text \<open>The pushes of \<open>identifyCriticalIssues\<close>, one after the other.\<close>

lemma identifyCriticalIssues_eq:
  "identifyCriticalIssues dd =
     (if zero_hires_fires dd
      then [zero_hires_alert (offered (calculateConversionFunnel dd))] else [])
     @ (if bottleneck_fires dd
        then [bottleneck_alert (percentage (advancedStage (calculatePipelineBreakdown dd)))] else [])
     @ (if volume_decline_fires dd
        then [volume_decline_alert (last_week dd) (previous_week dd)] else [])
     @ (if stale_postings_fires dd then [stale_jobs_alert (stale_job_count dd)] else [])"
proof (cases "2 \<le> length (applicationsOverTime dd)")
  case True
  note nth = nth_last_two [OF True]
  show ?thesis
    using True
    by (simp add: identifyCriticalIssues_def Let_def push_def zero_hires_fires_def
          bottleneck_fires_def volume_decline_fires_def stale_postings_fires_def
          stale_job_count_def last_week_def previous_week_def nth js_gt_def num_def)
next
  case False
  then show ?thesis
    by (simp add: identifyCriticalIssues_def Let_def push_def zero_hires_fires_def
          bottleneck_fires_def volume_decline_fires_def stale_postings_fires_def
          stale_job_count_def js_gt_def num_def)
qed

lemma alert_titles [simp]:
  "title (zero_hires_alert n) = ''Zero Hires from Offers''"
  "title (bottleneck_alert p) = ''Pipeline Bottleneck Detected''"
  "title (volume_decline_alert l q) = ''Application Volume Decline''"
  "title (stale_jobs_alert k) = ''Stale Job Postings''"
  by (simp_all add: zero_hires_alert_def bottleneck_alert_def volume_decline_alert_def
        stale_jobs_alert_def)

lemma alert_severities [simp]:
  "severity (zero_hires_alert n) = ''CRITICAL''"
  "severity (bottleneck_alert p) = ''HIGH''"
  "severity (volume_decline_alert l q) = ''MEDIUM''"
  "severity (stale_jobs_alert k) = ''MEDIUM''"
  by (simp_all add: zero_hires_alert_def bottleneck_alert_def volume_decline_alert_def
        stale_jobs_alert_def)

lemma show_nat_3: "show_nat 3 = ''3''"
  by code_simp

text \<open>
  C4. The alert titled \<open>Application Volume Decline\<close> is in the result, once and with
  severity MEDIUM and both counts in its message, if and only if the weekly series has at
  least 2 points and the last count is strictly less than half the previous count; the
  weekly counts 10, 5 do not fire the rule and 10, 4 do, whatever the rest of the data.
\<close>

theorem volume_decline_rule:
  "filter (\<lambda>a. title a = ''Application Volume Decline'') (identifyCriticalIssues dd) =
     (if 2 \<le> length (applicationsOverTime dd)
         \<and> (of_nat (last_week dd) :: rat) < (1 / 2) * of_nat (previous_week dd)
      then [volume_decline_alert (last_week dd) (previous_week dd)] else [])
   \<and> ((\<exists>a \<in> set (identifyCriticalIssues dd).
          title a = ''Application Volume Decline'' \<and> severity a = ''MEDIUM'')
        \<longleftrightarrow> 2 \<le> length (applicationsOverTime dd)
            \<and> (of_nat (last_week dd) :: rat) < (1 / 2) * of_nat (previous_week dd))
   \<and> severity (volume_decline_alert l p) = ''MEDIUM''
   \<and> message (volume_decline_alert l p) =
        ''Most recent week shows '' @ show_nat l @ '' application(s), down from '' @ show_nat p
        @ ''. Consider refreshing job postings or expanding sourcing channels.''
   \<and> filter (\<lambda>a. title a = ''Application Volume Decline'')
        (identifyCriticalIssues (dd\<lparr> applicationsOverTime :=
           [\<lparr> Week_of_APPLICATION_DATE = w1, CountDistinct_of_APPLICANT_ID = 10 \<rparr>,
            \<lparr> Week_of_APPLICATION_DATE = w2, CountDistinct_of_APPLICANT_ID = 5 \<rparr>] \<rparr>)) = []
   \<and> filter (\<lambda>a. title a = ''Application Volume Decline'')
        (identifyCriticalIssues (dd\<lparr> applicationsOverTime :=
           [\<lparr> Week_of_APPLICATION_DATE = w1, CountDistinct_of_APPLICANT_ID = 10 \<rparr>,
            \<lparr> Week_of_APPLICATION_DATE = w2, CountDistinct_of_APPLICANT_ID = 4 \<rparr>] \<rparr>))
       = [volume_decline_alert 4 10]"
proof -
  let ?P = "\<lambda>a. title a = ''Application Volume Decline''"
  let ?c = "2 \<le> length (applicationsOverTime dd)
         \<and> (of_nat (last_week dd) :: rat) < (1 / 2) * of_nat (previous_week dd)"
  have 1: "filter ?P (identifyCriticalIssues dd) =
     (if ?c then [volume_decline_alert (last_week dd) (previous_week dd)] else [])"
    by (simp add: identifyCriticalIssues_eq volume_decline_fires_def)
  have "(\<exists>a \<in> set (identifyCriticalIssues dd). ?P a \<and> severity a = ''MEDIUM'')
        \<longleftrightarrow> (\<exists>a \<in> set (filter ?P (identifyCriticalIssues dd)). severity a = ''MEDIUM'')"
    by auto
  also have "\<dots> \<longleftrightarrow> ?c"
    by (simp only: 1) simp
  finally have 2: "(\<exists>a \<in> set (identifyCriticalIssues dd). ?P a \<and> severity a = ''MEDIUM'')
        \<longleftrightarrow> ?c" .
  have 3: "severity (volume_decline_alert l p) = ''MEDIUM''"
    by simp
  have 4: "message (volume_decline_alert l p) =
        ''Most recent week shows '' @ show_nat l @ '' application(s), down from '' @ show_nat p
        @ ''. Consider refreshing job postings or expanding sourcing channels.''"
    by (simp add: volume_decline_alert_def)
  have 5: "filter ?P
        (identifyCriticalIssues (dd\<lparr> applicationsOverTime :=
           [\<lparr> Week_of_APPLICATION_DATE = w1, CountDistinct_of_APPLICANT_ID = 10 \<rparr>,
            \<lparr> Week_of_APPLICATION_DATE = w2, CountDistinct_of_APPLICANT_ID = 5 \<rparr>] \<rparr>)) = []"
    by (simp add: identifyCriticalIssues_eq volume_decline_fires_def last_week_def
          previous_week_def)
  have 6: "filter ?P
        (identifyCriticalIssues (dd\<lparr> applicationsOverTime :=
           [\<lparr> Week_of_APPLICATION_DATE = w1, CountDistinct_of_APPLICANT_ID = 10 \<rparr>,
            \<lparr> Week_of_APPLICATION_DATE = w2, CountDistinct_of_APPLICANT_ID = 4 \<rparr>] \<rparr>))
       = [volume_decline_alert 4 10]"
    by (simp add: identifyCriticalIssues_eq volume_decline_fires_def last_week_def
          previous_week_def)
  from 1 2 3 4 5 6 show ?thesis by (intro conjI)
qed

theorem volume_decline_rule_witness:
  "filter (\<lambda>a. title a = ''Application Volume Decline'')
     (identifyCriticalIssues
        \<lparr> applicationDetails = [], applicantsByStatus = [],
          applicationsOverTime =
            [\<lparr> Week_of_APPLICATION_DATE = ''2024-01-01'', CountDistinct_of_APPLICANT_ID = 10 \<rparr>,
             \<lparr> Week_of_APPLICATION_DATE = ''2024-01-08'', CountDistinct_of_APPLICANT_ID = 4 \<rparr>],
          byTeamJob = [] \<rparr>)
   = [volume_decline_alert 4 10]
   \<and> filter (\<lambda>a. title a = ''Application Volume Decline'')
     (identifyCriticalIssues
        \<lparr> applicationDetails = [], applicantsByStatus = [],
          applicationsOverTime =
            [\<lparr> Week_of_APPLICATION_DATE = ''2024-01-01'', CountDistinct_of_APPLICANT_ID = 10 \<rparr>,
             \<lparr> Week_of_APPLICATION_DATE = ''2024-01-08'', CountDistinct_of_APPLICANT_ID = 5 \<rparr>],
          byTeamJob = [] \<rparr>)
   = []"
  using volume_decline_rule
    [of "\<lparr> applicationDetails = [], applicantsByStatus = [], applicationsOverTime = [],
           byTeamJob = [] \<rparr>" 4 10 "''2024-01-01''" "''2024-01-08''"]
  by simp

text \<open>
  C5. The alerts of severity CRITICAL in the result are exactly one, the zero-hires
  alert, if the funnel's offered count is greater than 0 and its hired count is 0, and
  none otherwise; the alert's message starts with the decimal digits of the offered
  count. With an offered count of 3 and a hired count of 0 there is exactly one CRITICAL
  alert and its message starts with \<open>3\<close>.
\<close>

theorem zero_hires_rule:
  "filter (\<lambda>a. severity a = ''CRITICAL'') (identifyCriticalIssues dd) =
     (if 0 < offered (calculateConversionFunnel dd) \<and> hired (calculateConversionFunnel dd) = 0
      then [zero_hires_alert (offered (calculateConversionFunnel dd))] else [])
   \<and> severity (zero_hires_alert n) = ''CRITICAL''
   \<and> (\<exists>rest. message (zero_hires_alert n) = show_nat n @ rest)
   \<and> (offered (calculateConversionFunnel dd) = 3 \<and> hired (calculateConversionFunnel dd) = 0
        \<longrightarrow> (\<exists>a rest. filter (\<lambda>a. severity a = ''CRITICAL'') (identifyCriticalIssues dd) = [a]
                    \<and> message a = ''3'' @ rest))"
proof -
  have 1: "filter (\<lambda>a. severity a = ''CRITICAL'') (identifyCriticalIssues dd) =
     (if 0 < offered (calculateConversionFunnel dd) \<and> hired (calculateConversionFunnel dd) = 0
      then [zero_hires_alert (offered (calculateConversionFunnel dd))] else [])"
    by (simp add: identifyCriticalIssues_eq zero_hires_fires_def)
  have 2: "\<exists>rest. message (zero_hires_alert m) = show_nat m @ rest" for m
    by (simp add: zero_hires_alert_def)
  have 3: "\<exists>a rest. filter (\<lambda>a. severity a = ''CRITICAL'') (identifyCriticalIssues dd) = [a]
                    \<and> message a = ''3'' @ rest"
    if "offered (calculateConversionFunnel dd) = 3" "hired (calculateConversionFunnel dd) = 0"
    using that 2 [of 3] by (simp only: 1 show_nat_3) auto
  from 1 2 3 show ?thesis by simp
qed

theorem zero_hires_rule_witness:
  "offered (calculateConversionFunnel
      \<lparr> applicationDetails =
          [[(''Offer Date'', Str ''2024-02-01'')], [(''Offer Date'', Str ''2024-02-02'')],
           [(''Offer Date'', Str ''2024-02-03'')]],
        applicantsByStatus = [], applicationsOverTime = [], byTeamJob = [] \<rparr>) = 3
   \<and> hired (calculateConversionFunnel
      \<lparr> applicationDetails =
          [[(''Offer Date'', Str ''2024-02-01'')], [(''Offer Date'', Str ''2024-02-02'')],
           [(''Offer Date'', Str ''2024-02-03'')]],
        applicantsByStatus = [], applicationsOverTime = [], byTeamJob = [] \<rparr>) = 0
   \<and> (\<exists>a rest. filter (\<lambda>a. severity a = ''CRITICAL'')
        (identifyCriticalIssues
           \<lparr> applicationDetails =
               [[(''Offer Date'', Str ''2024-02-01'')], [(''Offer Date'', Str ''2024-02-02'')],
                [(''Offer Date'', Str ''2024-02-03'')]],
             applicantsByStatus = [], applicationsOverTime = [], byTeamJob = [] \<rparr>) = [a]
        \<and> message a = ''3'' @ rest)"
proof -
  let ?dd = "\<lparr> applicationDetails =
          [[(''Offer Date'', Str ''2024-02-01'')], [(''Offer Date'', Str ''2024-02-02'')],
           [(''Offer Date'', Str ''2024-02-03'')]],
        applicantsByStatus = [], applicationsOverTime = [], byTeamJob = [] \<rparr>"
  have o: "offered (calculateConversionFunnel ?dd) = 3"
    by (simp add: calculateConversionFunnel_def get_field_def)
  have h: "hired (calculateConversionFunnel ?dd) = 0"
    by (simp add: calculateConversionFunnel_def get_field_def)
  from zero_hires_rule [of ?dd 3] o h show ?thesis by blast
qed

text \<open>
  C6. The result of \<open>identifyCriticalIssues\<close> is the alerts of the rules that fire, in
  the fixed order zero-hires, bottleneck, volume-decline, stale-postings, with no
  reordering; it is the empty list, and nothing else, exactly when no rule fires.
\<close>

theorem identifyCriticalIssues_evaluation_order:
  "identifyCriticalIssues dd =
     (if zero_hires_fires dd
      then [zero_hires_alert (offered (calculateConversionFunnel dd))] else [])
     @ (if bottleneck_fires dd
        then [bottleneck_alert (percentage (advancedStage (calculatePipelineBreakdown dd)))] else [])
     @ (if volume_decline_fires dd
        then [volume_decline_alert (last_week dd) (previous_week dd)] else [])
     @ (if stale_postings_fires dd then [stale_jobs_alert (stale_job_count dd)] else [])
   \<and> map title (identifyCriticalIssues dd) =
       filter (\<lambda>t. (t = ''Zero Hires from Offers'' \<and> zero_hires_fires dd)
                 \<or> (t = ''Pipeline Bottleneck Detected'' \<and> bottleneck_fires dd)
                 \<or> (t = ''Application Volume Decline'' \<and> volume_decline_fires dd)
                 \<or> (t = ''Stale Job Postings'' \<and> stale_postings_fires dd))
         [''Zero Hires from Offers'', ''Pipeline Bottleneck Detected'',
          ''Application Volume Decline'', ''Stale Job Postings'']
   \<and> (identifyCriticalIssues dd = [] \<longleftrightarrow>
        \<not> zero_hires_fires dd \<and> \<not> bottleneck_fires dd \<and> \<not> volume_decline_fires dd
        \<and> \<not> stale_postings_fires dd)"
  by (simp add: identifyCriticalIssues_eq)

theorem identifyCriticalIssues_evaluation_order_witness:
  "map title (identifyCriticalIssues
      \<lparr> applicationDetails = [[(''Offer Date'', Str ''2024-02-01'')]],
        applicantsByStatus = [], applicationsOverTime = [],
        byTeamJob = [\<lparr> Job_Name = ''Driver'', Job_Owner = ''Ann'', Total_Applicants = 2,
                       Days_Open = 400 \<rparr>] \<rparr>)
   = [''Zero Hires from Offers'', ''Stale Job Postings'']
   \<and> identifyCriticalIssues
      \<lparr> applicationDetails = [], applicantsByStatus = [], applicationsOverTime = [],
        byTeamJob = [] \<rparr> = []"
proof -
  let ?dd = "\<lparr> applicationDetails = [[(''Offer Date'', Str ''2024-02-01'')]],
        applicantsByStatus = [], applicationsOverTime = [],
        byTeamJob = [\<lparr> Job_Name = ''Driver'', Job_Owner = ''Ann'', Total_Applicants = 2,
                       Days_Open = 400 \<rparr>] \<rparr>"
  let ?empty = "\<lparr> applicationDetails = [], applicantsByStatus = [], applicationsOverTime = [],
        byTeamJob = [] \<rparr>"
  have a: "zero_hires_fires ?dd" "\<not> bottleneck_fires ?dd" "\<not> volume_decline_fires ?dd"
    "stale_postings_fires ?dd"
    by (simp_all add: zero_hires_fires_def bottleneck_fires_def volume_decline_fires_def
          stale_postings_fires_def stale_job_count_def calculateConversionFunnel_def get_field_def
          calculatePipelineBreakdown_eq breakdown_entry_eq grand_total_def category_count_def
          js_gt_def num_def)
  have b: "\<not> zero_hires_fires ?empty" "\<not> bottleneck_fires ?empty"
    "\<not> volume_decline_fires ?empty" "\<not> stale_postings_fires ?empty"
    by (simp_all add: zero_hires_fires_def bottleneck_fires_def volume_decline_fires_def
          stale_postings_fires_def stale_job_count_def calculateConversionFunnel_def
          calculatePipelineBreakdown_eq breakdown_entry_eq grand_total_def category_count_def
          js_gt_def num_def)
  from identifyCriticalIssues_evaluation_order [of ?dd] a
  have "map title (identifyCriticalIssues ?dd) = [''Zero Hires from Offers'', ''Stale Job Postings'']"
    by simp
  moreover from identifyCriticalIssues_evaluation_order [of ?empty] b
  have "identifyCriticalIssues ?empty = []" by blast
  ultimately show ?thesis by simp
qed

subsection \<open>Stage durations\<close>

lemma days_finite:
  assumes "new_Date parse (get_field d sf) = Fin s" and "new_Date parse (get_field d ef) = Fin e"
  shows "days parse d sf ef = Fin ((e - s) / 86400000)"
  using assms by (simp add: days_def Let_def js_sub_def num_def)

lemma foldl_days_finite:
  assumes "\<forall>d \<in> set xs. new_Date parse (get_field d sf) = Fin (s d)
                       \<and> new_Date parse (get_field d ef) = Fin (e d)"
  shows "foldl (\<lambda>sum record. js_add sum (days parse record sf ef)) (Fin a) xs
         = Fin (a + sum_list (map (\<lambda>d. (e d - s d) / 86400000) xs))"
  using assms
proof (induction xs arbitrary: a)
  case Nil
  show ?case by simp
next
  case (Cons x xs)
  have x: "days parse x sf ef = Fin ((e x - s x) / 86400000)"
    using Cons.prems by (intro days_finite) simp_all
  have "foldl (\<lambda>sum record. js_add sum (days parse record sf ef)) (Fin a) (x # xs)
        = foldl (\<lambda>sum record. js_add sum (days parse record sf ef))
            (Fin (a + (e x - s x) / 86400000)) xs"
    by (simp add: x)
  also have "\<dots> = Fin (a + (e x - s x) / 86400000
                        + sum_list (map (\<lambda>d. (e d - s d) / 86400000) xs))"
    using Cons.prems by (intro Cons.IH) simp
  finally show ?case by (simp add: add.assoc)
qed

lemma validRecords_skip:
  assumes "\<not> (truthy (get_field r sf) \<and> truthy (get_field r ef))"
  shows "validRecords (xs @ r # ys) sf ef = validRecords (xs @ ys) sf ef"
  using assms by (simp add: validRecords_def)

lemma calculateAverageDays_cong:
  "validRecords xs sf ef = validRecords ys sf ef
   \<Longrightarrow> calculateAverageDays parse xs sf ef = calculateAverageDays parse ys sf ef"
  by (simp add: calculateAverageDays_def)

lemma calculateAverageDays_finite:
  assumes "\<forall>d \<in> set (validRecords data sf ef).
             new_Date parse (get_field d sf) = Fin (s d)
             \<and> new_Date parse (get_field d ef) = Fin (e d)"
  shows "calculateAverageDays parse data sf ef =
           (if validRecords data sf ef = [] then Fin 0
            else Fin (sum_list (map (\<lambda>d. (e d - s d) / 86400000) (validRecords data sf ef))
                      / of_nat (length (validRecords data sf ef))))"
proof (cases "validRecords data sf ef = []")
  case True
  then show ?thesis by (simp add: calculateAverageDays_def num_def)
next
  case False
  have "foldl (\<lambda>sum record. js_add sum (days parse record sf ef)) (Fin 0) (validRecords data sf ef)
        = Fin (0 + sum_list (map (\<lambda>d. (e d - s d) / 86400000) (validRecords data sf ef)))"
    using assms by (rule foldl_days_finite)
  with False show ?thesis
    by (simp add: calculateAverageDays_def Let_def num_def)
qed

lemma iso_date_ms_2024_01_01: "iso_date_ms ''2024-01-01'' = Fin 1704067200000"
  by code_simp

lemma iso_date_ms_2024_01_05: "iso_date_ms ''2024-01-05'' = Fin 1704412800000"
  by code_simp

lemma calculateAverageDays_example:
  "calculateAverageDays iso_date_ms
     [[(''a'', Str ''2024-01-01''), (''b'', Str ''2024-01-05'')],
      [(''a'', Str ''2024-01-01''), (''b'', Null)]] ''a'' ''b'' = Fin 4"
proof -
  have v: "validRecords [[(''a'', Str ''2024-01-01''), (''b'', Str ''2024-01-05'')],
                         [(''a'', Str ''2024-01-01''), (''b'', Null)]] ''a'' ''b''
             = [[(''a'', Str ''2024-01-01''), (''b'', Str ''2024-01-05'')]]"
    by (simp add: validRecords_def get_field_def)
  have d: "days iso_date_ms [(''a'', Str ''2024-01-01''), (''b'', Str ''2024-01-05'')] ''a'' ''b''
             = Fin 4"
    by (simp add: days_def get_field_def iso_date_ms_2024_01_01 iso_date_ms_2024_01_05
          js_sub_def num_def)
  show ?thesis
    by (simp add: calculateAverageDays_def v d num_def)
qed

text \<open>
  C7. \<open>calculateAverageDays\<close> keeps exactly the records whose start field and end field
  are both present; when the dates of the kept records parse to finite time values it
  returns the arithmetic mean of (end - start) / 86400000, a fraction of days, over the
  kept records, and 0 when no record is kept; a record with a missing endpoint does not
  change the result. The two records of the example give 4 days.
\<close>

theorem calculateAverageDays_mean:
  "validRecords data sf ef
     = filter (\<lambda>d. truthy (get_field d sf) \<and> truthy (get_field d ef)) data
   \<and> ((\<forall>d \<in> set (validRecords data sf ef).
          new_Date parse (get_field d sf) = Fin (s d)
          \<and> new_Date parse (get_field d ef) = Fin (e d))
       \<longrightarrow> calculateAverageDays parse data sf ef =
             (if validRecords data sf ef = [] then Fin 0
              else Fin (sum_list (map (\<lambda>d. (e d - s d) / 86400000) (validRecords data sf ef))
                        / of_nat (length (validRecords data sf ef)))))
   \<and> (validRecords data sf ef = [] \<longrightarrow> calculateAverageDays parse data sf ef = Fin 0)
   \<and> (\<not> (truthy (get_field r sf) \<and> truthy (get_field r ef))
       \<longrightarrow> calculateAverageDays parse (xs @ r # ys) sf ef
           = calculateAverageDays parse (xs @ ys) sf ef)
   \<and> calculateAverageDays iso_date_ms
       [[(''a'', Str ''2024-01-01''), (''b'', Str ''2024-01-05'')],
        [(''a'', Str ''2024-01-01''), (''b'', Null)]] ''a'' ''b'' = Fin 4"
proof -
  have 1: "validRecords data sf ef
     = filter (\<lambda>d. truthy (get_field d sf) \<and> truthy (get_field d ef)) data"
    by (simp add: validRecords_def)
  have 2: "calculateAverageDays parse data sf ef =
             (if validRecords data sf ef = [] then Fin 0
              else Fin (sum_list (map (\<lambda>d. (e d - s d) / 86400000) (validRecords data sf ef))
                        / of_nat (length (validRecords data sf ef))))"
    if "\<forall>d \<in> set (validRecords data sf ef).
          new_Date parse (get_field d sf) = Fin (s d)
          \<and> new_Date parse (get_field d ef) = Fin (e d)"
    using that by (rule calculateAverageDays_finite)
  have 3: "calculateAverageDays parse data sf ef = Fin 0" if "validRecords data sf ef = []"
    using that by (simp add: calculateAverageDays_def num_def)
  have 4: "calculateAverageDays parse (xs @ r # ys) sf ef
           = calculateAverageDays parse (xs @ ys) sf ef"
    if "\<not> (truthy (get_field r sf) \<and> truthy (get_field r ef))"
    using that by (intro calculateAverageDays_cong validRecords_skip)
  from 1 2 3 4 calculateAverageDays_example show ?thesis by blast
qed

theorem calculateAverageDays_mean_witness:
  "validRecords [[(''a'', Str ''2024-01-01''), (''b'', Str ''2024-01-05'')],
                 [(''a'', Str ''2024-01-01''), (''b'', Null)]] ''a'' ''b''
     = [[(''a'', Str ''2024-01-01''), (''b'', Str ''2024-01-05'')]]
   \<and> new_Date iso_date_ms (Str ''2024-01-01'') = Fin 1704067200000
   \<and> new_Date iso_date_ms (Str ''2024-01-05'') = Fin 1704412800000
   \<and> calculateAverageDays iso_date_ms
       [[(''a'', Str ''2024-01-01''), (''b'', Str ''2024-01-05'')],
        [(''a'', Str ''2024-01-01''), (''b'', Null)]] ''a'' ''b''
     = Fin ((1704412800000 - 1704067200000) / 86400000 / 1)"
proof -
  let ?data = "[[(''a'', Str ''2024-01-01''), (''b'', Str ''2024-01-05'')],
                [(''a'', Str ''2024-01-01''), (''b'', Null)]]"
  have v: "validRecords ?data ''a'' ''b''
             = [[(''a'', Str ''2024-01-01''), (''b'', Str ''2024-01-05'')]]"
    by (simp add: validRecords_def get_field_def)
  note s0 = iso_date_ms_2024_01_01 and e0 = iso_date_ms_2024_01_05
  have s: "new_Date iso_date_ms (Str ''2024-01-01'') = Fin 1704067200000"
    by (simp add: s0)
  have e: "new_Date iso_date_ms (Str ''2024-01-05'') = Fin 1704412800000"
    by (simp add: e0)
  have h: "\<forall>d \<in> set (validRecords ?data ''a'' ''b'').
             new_Date iso_date_ms (get_field d ''a'') = Fin ((\<lambda>_. 1704067200000) d)
             \<and> new_Date iso_date_ms (get_field d ''b'') = Fin ((\<lambda>_. 1704412800000) d)"
    by (simp add: v get_field_def s0 e0)
  from calculateAverageDays_mean
         [of ?data "''a''" "''b''" iso_date_ms "\<lambda>_. 1704067200000" "\<lambda>_. 1704412800000"] h
  have m: "calculateAverageDays iso_date_ms ?data ''a'' ''b''
        = Fin ((1704412800000 - 1704067200000) / 86400000 / 1)"
    by (simp add: v)
  from v s e m show ?thesis by (intro conjI)
qed

subsection \<open>Recruiter performance\<close>

lemma group_counts_Nil: "group_counts [] = Map.empty"
  by (rule ext) (simp add: group_counts_def)

lemma count_application_group:
  "count_application (group_counts xs) x = group_counts (xs @ [x])"
proof (rule ext)
  fix owner
  show "count_application (group_counts xs) x owner = group_counts (xs @ [x]) owner"
  proof (cases "owner_of x \<in> set object_prototype_members")
    case True
    then show ?thesis
      by (auto simp: count_application_def group_counts_def Let_def owner_of_def)
  next
    case proto: False
    show ?thesis
    proof (cases "owner = owner_of x")
      case False
      with proto show ?thesis
        by (auto simp: count_application_def group_counts_def Let_def owner_of_def)
    next
      case True
      show ?thesis
      proof (cases "filter (\<lambda>app. owner_of app = owner_of x) xs = []")
        case True
        with proto \<open>owner = owner_of x\<close> show ?thesis
          by (simp add: count_application_def group_counts_def Let_def owner_of_def)
      next
        case False
        with proto \<open>owner = owner_of x\<close> show ?thesis
          by (simp add: count_application_def group_counts_def Let_def owner_of_def)
      qed
    qed
  qed
qed

lemma foldl_count_application:
  "foldl count_application Map.empty xs = group_counts xs"
proof (induction xs rule: rev_induct)
  case Nil
  show ?case by (simp add: group_counts_Nil)
next
  case (snoc x xs)
  then show ?case by (simp add: count_application_group)
qed

lemma calculateRecruiterPerformance_eq:
  "calculateRecruiterPerformance dd owner
     = map_option calculate_rates (group_counts (applicationDetails dd) owner)"
  by (simp add: calculateRecruiterPerformance_def foldl_count_application)





subsection \<open>Viewed count against viewed date\<close>

lemma group_counts_Cons_same:
  "owner_of r \<notin> set object_prototype_members \<Longrightarrow>
   \<exists>c. group_counts (r # ds) (owner_of r) = Some c
       \<and> viewed_r c = (if truthy (get_field r ''Viewed By'') then 1 else 0)
           + length (filter (\<lambda>app. truthy (get_field app ''Viewed By''))
               (filter (\<lambda>app. owner_of app = owner_of r) ds))"
  by (simp add: group_counts_def Let_def)

text \<open>
  C10. The funnel and the recruiter table count a record as viewed by its \<open>Viewed By\<close>
  field, the duration averages keep a record by its \<open>Viewed Date\<close> field: there is a
  record, with a viewer and no viewed date, that adds 1 to the viewed count of the funnel
  and of its owner's entry in any dataset it is put in front of, and is kept neither for
  the application-to-view nor for the view-to-interview average, which stay as they are.
\<close>

theorem viewed_by_without_viewed_date:
  "\<exists>r. truthy (get_field r ''Viewed By'') \<and> \<not> truthy (get_field r ''Viewed Date'')
     \<and> (\<forall>parse dd.
          viewed (calculateConversionFunnel (dd\<lparr> applicationDetails := r # applicationDetails dd \<rparr>))
            = viewed (calculateConversionFunnel dd) + 1
          \<and> (\<exists>s. calculateRecruiterPerformance
                    (dd\<lparr> applicationDetails := r # applicationDetails dd \<rparr>) (owner_of r) = Some s
                \<and> viewed_r s = 1 + length (filter (\<lambda>app. truthy (get_field app ''Viewed By''))
                                   (filter (\<lambda>app. owner_of app = owner_of r) (applicationDetails dd))))
          \<and> r \<notin> set (validRecords (r # applicationDetails dd) ''Application Date'' ''Viewed Date'')
          \<and> r \<notin> set (validRecords (r # applicationDetails dd) ''Viewed Date'' ''Interview Date'')
          \<and> appToView (calculateTimeMetrics parse
                (dd\<lparr> applicationDetails := r # applicationDetails dd \<rparr>))
              = appToView (calculateTimeMetrics parse dd)
          \<and> viewToInterview (calculateTimeMetrics parse
                (dd\<lparr> applicationDetails := r # applicationDetails dd \<rparr>))
              = viewToInterview (calculateTimeMetrics parse dd))"
proof -
  let ?r = "[(''Application Date'', Str ''2024-01-01''), (''Job Owner'', Str ''Ann''),
             (''Viewed By'', Str ''Bob''), (''Viewed Date'', Null)]"
  have by': "truthy (get_field ?r ''Viewed By'')"
    by (simp add: get_field_def)
  have date: "\<not> truthy (get_field ?r ''Viewed Date'')"
    by (simp add: get_field_def)
  have own: "owner_of ?r \<notin> set object_prototype_members"
    by (simp add: owner_of_def get_field_def object_prototype_members_def)
  have funnel: "viewed (calculateConversionFunnel (dd\<lparr> applicationDetails := ?r # applicationDetails dd \<rparr>))
            = viewed (calculateConversionFunnel dd) + 1" for dd
    using by' by (simp add: calculateConversionFunnel_def Let_def)
  have recruiter: "\<exists>s. calculateRecruiterPerformance
                    (dd\<lparr> applicationDetails := ?r # applicationDetails dd \<rparr>) (owner_of ?r) = Some s
                \<and> viewed_r s = 1 + length (filter (\<lambda>app. truthy (get_field app ''Viewed By''))
                                   (filter (\<lambda>app. owner_of app = owner_of ?r) (applicationDetails dd)))"
    for dd
  proof -
    from group_counts_Cons_same [OF own, of "applicationDetails dd"] by'
    obtain c where c: "group_counts (?r # applicationDetails dd) (owner_of ?r) = Some c"
      and v: "viewed_r c = 1 + length (filter (\<lambda>app. truthy (get_field app ''Viewed By''))
               (filter (\<lambda>app. owner_of app = owner_of ?r) (applicationDetails dd)))"
      by (auto simp only: if_True)
    show ?thesis
      using v by (simp add: calculateRecruiterPerformance_eq c calculate_rates_def)
  qed
  have v1: "validRecords (?r # ds) ''Application Date'' ''Viewed Date''
              = validRecords ds ''Application Date'' ''Viewed Date''" for ds
    using validRecords_skip [of ?r "''Application Date''" "''Viewed Date''" "[]" ds] date by simp
  have v2: "validRecords (?r # ds) ''Viewed Date'' ''Interview Date''
              = validRecords ds ''Viewed Date'' ''Interview Date''" for ds
    using validRecords_skip [of ?r "''Viewed Date''" "''Interview Date''" "[]" ds] date by simp
  have n1: "?r \<notin> set (validRecords (?r # ds) ''Application Date'' ''Viewed Date'')" for ds
    using date by (simp add: validRecords_def)
  have n2: "?r \<notin> set (validRecords (?r # ds) ''Viewed Date'' ''Interview Date'')" for ds
    using date by (simp add: validRecords_def)
  have a1: "appToView (calculateTimeMetrics parse
                (dd\<lparr> applicationDetails := ?r # applicationDetails dd \<rparr>))
              = appToView (calculateTimeMetrics parse dd)" for parse dd
    by (simp add: calculateTimeMetrics_def Let_def calculateAverageDays_cong [OF v1])
  have a2: "viewToInterview (calculateTimeMetrics parse
                (dd\<lparr> applicationDetails := ?r # applicationDetails dd \<rparr>))
              = viewToInterview (calculateTimeMetrics parse dd)" for parse dd
    by (simp add: calculateTimeMetrics_def Let_def calculateAverageDays_cong [OF v2])
  show ?thesis
    by (rule exI [of _ ?r]) (intro conjI allI by' date funnel recruiter n1 n2 a1 a2)
qed

end
